theory Spec2Isabelle
  imports Complex_Main
begin

section \<open>Conventions of the embedding\<close>

text \<open>
  The two engines of the repository are embedded: the route planning estimator
  (\<^verbatim>\<open>maritime_route_plan\<close> and its helpers in \<^verbatim>\<open>app.py\<close>) and the voyage leg simulator
  (\<^verbatim>\<open>simulate_route\<close> in \<^verbatim>\<open>simu_routes.py\<close>).

  Python floats: a finite value is an exact real, and arithmetic on finite values is
  the mathematical one, without binary rounding or overflow. Two effects of float
  arithmetic change what the simulator does and are modelled. A commanded speed may be
  NaN or an infinity, so the speeds and the fuel amounts computed from them are of
  type \<open>pyfloat\<close>, with the IEEE rules for the special values. The rounding error of
  the haversine term in \<^verbatim>\<open>calculate_distance\<close> decides whether its square roots are
  defined, so it is an argument of the model. Coordinates, prices, weather draws and
  the planner's amounts are finite. Exceptions are values: the helpers return
  \<open>py_exception + 'a\<close>, and the two endpoints, whose bodies sit in a
  \<^verbatim>\<open>try ... except Exception\<close>, turn any exception into the HTTP 500 answer.
  A JSON request is a record whose optional keys are \<open>option\<close> fields; \<open>get_or\<close> is
  \<^verbatim>\<open>data.get(key, default)\<close>. Timestamps are hours on a common time line together with
  the flag that tells whether the parsed \<^verbatim>\<open>datetime\<close> carries a UTC offset; the range
  limits and the microsecond grid of \<^verbatim>\<open>datetime\<close> are not modelled.
\<close>

datatype py_exception = ValueError | ZeroDivisionError | OverflowError | AttributeError | TypeError

datatype error = Invalid_port_selection | Invalid_ship_type | Internal_error

definition get_or :: "'a option \<Rightarrow> 'a \<Rightarrow> 'a" where
  "get_or v d = (case v of Some x \<Rightarrow> x | None \<Rightarrow> d)"

definition bind_exc :: "py_exception + 'a \<Rightarrow> ('a \<Rightarrow> py_exception + 'b) \<Rightarrow> py_exception + 'b" where
  "bind_exc m f = (case m of Inl e \<Rightarrow> Inl e | Inr x \<Rightarrow> f x)"

text \<open>Python's \<^verbatim>\<open>round(x)\<close>: to the nearest integer, ties to the even one.\<close>

definition py_round :: "real \<Rightarrow> int" where
  "py_round x =
     (let f = \<lfloor>x\<rfloor>; d = x - of_int f
      in if d < 1 / 2 then f
         else if 1 / 2 < d then f + 1
         else if even f then f else f + 1)"

text \<open>\<^verbatim>\<open>round(x, 2)\<close>, on the exact value.\<close>

definition round2 :: "real \<Rightarrow> real" where
  "round2 x = of_int (py_round (x * 100)) / 100"

subsection \<open>Special float values\<close>

text \<open>
  A Python float that may be NaN or an infinity. Arithmetic follows IEEE 754 on the
  special values and is exact on the finite ones; the sign of a zero is not kept.
\<close>

datatype pyfloat = Finite real | PInf | NInf | NaN

fun fneg :: "pyfloat \<Rightarrow> pyfloat" where
  "fneg (Finite x) = Finite (- x)"
| "fneg PInf = NInf"
| "fneg NInf = PInf"
| "fneg NaN = NaN"

fun fadd :: "pyfloat \<Rightarrow> pyfloat \<Rightarrow> pyfloat" where
  "fadd (Finite x) (Finite y) = Finite (x + y)"
| "fadd NaN y = NaN"
| "fadd x NaN = NaN"
| "fadd PInf NInf = NaN"
| "fadd NInf PInf = NaN"
| "fadd PInf y = PInf"
| "fadd x PInf = PInf"
| "fadd NInf y = NInf"
| "fadd x NInf = NInf"

definition fsub :: "pyfloat \<Rightarrow> pyfloat \<Rightarrow> pyfloat" where
  "fsub x y = fadd x (fneg y)"

text \<open>The product of an infinity with a finite \<open>x\<close>: NaN for zero, else by the sign.\<close>

definition inf_times :: "bool \<Rightarrow> real \<Rightarrow> pyfloat" where
  "inf_times positive x =
     (if x = 0 then NaN else if (0 < x) = positive then PInf else NInf)"

fun fmul :: "pyfloat \<Rightarrow> pyfloat \<Rightarrow> pyfloat" where
  "fmul (Finite x) (Finite y) = Finite (x * y)"
| "fmul NaN y = NaN"
| "fmul x NaN = NaN"
| "fmul (Finite x) PInf = inf_times True x"
| "fmul (Finite x) NInf = inf_times False x"
| "fmul PInf (Finite y) = inf_times True y"
| "fmul NInf (Finite y) = inf_times False y"
| "fmul PInf PInf = PInf"
| "fmul NInf NInf = PInf"
| "fmul PInf NInf = NInf"
| "fmul NInf PInf = NInf"

text \<open>
  \<^verbatim>\<open>x / y\<close> on floats: a zero divisor raises \<^verbatim>\<open>ZeroDivisionError\<close>, whatever the
  dividend is.
\<close>

fun fdiv :: "pyfloat \<Rightarrow> pyfloat \<Rightarrow> py_exception + pyfloat" where
  "fdiv x (Finite y) =
     (if y = 0 then Inl ZeroDivisionError
      else Inr (case x of
                  Finite a \<Rightarrow> Finite (a / y)
                | PInf \<Rightarrow> if 0 < y then PInf else NInf
                | NInf \<Rightarrow> if 0 < y then NInf else PInf
                | NaN \<Rightarrow> NaN))"
| "fdiv x NaN = Inr NaN"
| "fdiv (Finite a) y = Inr (Finite 0)"
| "fdiv x y = Inr NaN"

text \<open>\<^verbatim>\<open>x ** 3\<close>.\<close>

fun fpow3 :: "pyfloat \<Rightarrow> pyfloat" where
  "fpow3 (Finite x) = Finite (x ^ 3)"
| "fpow3 PInf = PInf"
| "fpow3 NInf = NInf"
| "fpow3 NaN = NaN"

text \<open>\<^verbatim>\<open>x < y\<close>: false as soon as one side is NaN.\<close>

fun flt :: "pyfloat \<Rightarrow> pyfloat \<Rightarrow> bool" where
  "flt (Finite x) (Finite y) = (x < y)"
| "flt NaN y = False"
| "flt x NaN = False"
| "flt x NInf = False"
| "flt PInf y = False"
| "flt x y = True"

text \<open>\<^verbatim>\<open>round(x, 2)\<close> keeps NaN and the infinities.\<close>

fun fround2 :: "pyfloat \<Rightarrow> pyfloat" where
  "fround2 (Finite x) = Finite (round2 x)"
| "fround2 x = x"

text \<open>
  \<^verbatim>\<open>round(x)\<close> raises \<^verbatim>\<open>ValueError\<close> on NaN and \<^verbatim>\<open>OverflowError\<close> on an infinity;
  so does \<^verbatim>\<open>timedelta(hours=x)\<close>, here with the number of hours as result.
\<close>

fun fpy_round :: "pyfloat \<Rightarrow> py_exception + int" where
  "fpy_round (Finite x) = Inr (py_round x)"
| "fpy_round NaN = Inl ValueError"
| "fpy_round x = Inl OverflowError"

fun timedelta_hours :: "pyfloat \<Rightarrow> py_exception + real" where
  "timedelta_hours (Finite h) = Inr h"
| "timedelta_hours NaN = Inl ValueError"
| "timedelta_hours x = Inl OverflowError"

text \<open>Python's \<^verbatim>\<open>needle in haystack\<close> on strings: a contiguous occurrence.\<close>

fun starts_with :: "string \<Rightarrow> string \<Rightarrow> bool" where
  "starts_with [] ys = True"
| "starts_with (x # xs) [] = False"
| "starts_with (x # xs) (y # ys) = (x = y \<and> starts_with xs ys)"

fun py_in :: "string \<Rightarrow> string \<Rightarrow> bool" where
  "py_in needle [] = (needle = [])"
| "py_in needle (y # ys) = (starts_with needle (y # ys) \<or> py_in needle ys)"

subsection \<open>The math module\<close>

definition radians :: "real \<Rightarrow> real" where
  "radians x = x * pi / 180"

definition py_sqrt :: "real \<Rightarrow> py_exception + real" where
  "py_sqrt x = (if x < 0 then Inl ValueError else Inr (sqrt x))"

definition py_asin :: "real \<Rightarrow> py_exception + real" where
  "py_asin x = (if x < - 1 \<or> 1 < x then Inl ValueError else Inr (arcsin x))"

text \<open>\<^verbatim>\<open>math.atan2(y, x)\<close>: the angle of the point \<open>(x, y)\<close>, in \<open>(-\<pi>, \<pi>]\<close>.\<close>

definition atan2 :: "real \<Rightarrow> real \<Rightarrow> real" where
  "atan2 y x =
     (if 0 < x then arctan (y / x)
      else if x < 0 \<and> 0 \<le> y then arctan (y / x) + pi
      else if x < 0 then arctan (y / x) - pi
      else if 0 < y then pi / 2
      else if y < 0 then - (pi / 2)
      else 0)"

subsection \<open>Dates\<close>

text \<open>
  A date string of a request, as \<^verbatim>\<open>datetime.fromisoformat\<close> sees it: year, month and
  day, or a string it rejects.
\<close>

datatype date_field = Iso_date int nat nat | Bad_date

fun date_fromisoformat :: "date_field \<Rightarrow> py_exception + (int \<times> nat \<times> nat)" where
  "date_fromisoformat (Iso_date y m d) = Inr (y, m, d)"
| "date_fromisoformat Bad_date = Inl ValueError"

text \<open>
  A parsed timestamp: whether it carries a UTC offset, and its position in hours.
\<close>

datatype datetime = Datetime (aware: bool) (at_hours: real)

datatype time_field = Iso_time datetime | Bad_time

fun time_fromisoformat :: "time_field \<Rightarrow> py_exception + datetime" where
  "time_fromisoformat (Iso_time t) = Inr t"
| "time_fromisoformat Bad_time = Inl ValueError"

text \<open>\<^verbatim>\<open>t + timedelta(hours=h)\<close>.\<close>

definition add_hours :: "datetime \<Rightarrow> real \<Rightarrow> datetime" where
  "add_hours t h = Datetime (aware t) (at_hours t + h)"

text \<open>
  \<^verbatim>\<open>(a - b).total_seconds() / 3600\<close>; subtracting an offset-aware and a naive timestamp
  raises \<^verbatim>\<open>TypeError\<close>.
\<close>

definition diff_hours :: "datetime \<Rightarrow> datetime \<Rightarrow> py_exception + real" where
  "diff_hours a b = (if aware a = aware b then Inr (at_hours a - at_hours b) else Inl TypeError)"

section \<open>Route planning estimator (app.py)\<close>

subsection \<open>Reference data\<close>

record port =
  lat :: real
  lng :: real
  country :: string
  bunker_price :: real
  port_cost_per_ton :: real

definition MAJOR_PORTS :: "(string \<times> port) list" where
  "MAJOR_PORTS =
    [(''Singapore'', \<lparr>lat = 1.3521, lng = 103.8198, country = ''Singapore'', bunker_price = 680, port_cost_per_ton = 0.8\<rparr>),
     (''Rotterdam'', \<lparr>lat = 51.9225, lng = 4.4792, country = ''Netherlands'', bunker_price = 650, port_cost_per_ton = 0.9\<rparr>),
     (''Shanghai'', \<lparr>lat = 31.2304, lng = 121.4737, country = ''China'', bunker_price = 670, port_cost_per_ton = 0.7\<rparr>),
     (''Hamburg'', \<lparr>lat = 53.5511, lng = 9.9937, country = ''Germany'', bunker_price = 660, port_cost_per_ton = 0.85\<rparr>),
     (''Los Angeles'', \<lparr>lat = 33.7485, lng = - 118.2436, country = ''USA'', bunker_price = 720, port_cost_per_ton = 1.0\<rparr>),
     (''Dubai'', \<lparr>lat = 25.2532, lng = 55.3657, country = ''UAE'', bunker_price = 640, port_cost_per_ton = 0.75\<rparr>),
     (''Hong Kong'', \<lparr>lat = 22.3193, lng = 114.1694, country = ''Hong Kong'', bunker_price = 675, port_cost_per_ton = 0.8\<rparr>),
     (''Antwerp'', \<lparr>lat = 51.2194, lng = 4.4025, country = ''Belgium'', bunker_price = 655, port_cost_per_ton = 0.9\<rparr>),
     (''Long Beach'', \<lparr>lat = 33.7701, lng = - 118.1937, country = ''USA'', bunker_price = 715, port_cost_per_ton = 1.0\<rparr>),
     (''Busan'', \<lparr>lat = 35.1796, lng = 129.0756, country = ''South Korea'', bunker_price = 690, port_cost_per_ton = 0.8\<rparr>),
     (''Tokyo'', \<lparr>lat = 35.6162, lng = 139.7431, country = ''Japan'', bunker_price = 700, port_cost_per_ton = 0.9\<rparr>),
     (''Mumbai'', \<lparr>lat = 19.0760, lng = 72.8777, country = ''India'', bunker_price = 635, port_cost_per_ton = 0.6\<rparr>),
     (''Felixstowe'', \<lparr>lat = 51.9542, lng = 1.3509, country = ''UK'', bunker_price = 665, port_cost_per_ton = 0.85\<rparr>),
     (''Valencia'', \<lparr>lat = 39.4699, lng = - 0.3763, country = ''Spain'', bunker_price = 645, port_cost_per_ton = 0.8\<rparr>)]"

record ship_spec =
  ship_name :: string
  fuel_rate_tons_per_day :: real
  avg_speed_knots :: real
  cost_per_ton_fuel :: real
  typical_dwt_range :: "real \<times> real"
  fuel_efficiency_factor :: real

definition SHIP_TYPES :: "(string \<times> ship_spec) list" where
  "SHIP_TYPES =
    [(''container'', \<lparr>ship_name = ''Container Ship'', fuel_rate_tons_per_day = 250, avg_speed_knots = 22,
        cost_per_ton_fuel = 8.5, typical_dwt_range = (50000, 200000), fuel_efficiency_factor = 1.0\<rparr>),
     (''bulk'', \<lparr>ship_name = ''Bulk Carrier'', fuel_rate_tons_per_day = 180, avg_speed_knots = 14,
        cost_per_ton_fuel = 7.8, typical_dwt_range = (10000, 400000), fuel_efficiency_factor = 0.9\<rparr>),
     (''tanker'', \<lparr>ship_name = ''Oil Tanker'', fuel_rate_tons_per_day = 200, avg_speed_knots = 16,
        cost_per_ton_fuel = 8.2, typical_dwt_range = (5000, 320000), fuel_efficiency_factor = 0.95\<rparr>),
     (''general'', \<lparr>ship_name = ''General Cargo'', fuel_rate_tons_per_day = 120, avg_speed_knots = 18,
        cost_per_ton_fuel = 7.5, typical_dwt_range = (1000, 60000), fuel_efficiency_factor = 1.1\<rparr>),
     (''roro'', \<lparr>ship_name = ''RoRo Vessel'', fuel_rate_tons_per_day = 160, avg_speed_knots = 20,
        cost_per_ton_fuel = 8.0, typical_dwt_range = (5000, 80000), fuel_efficiency_factor = 1.05\<rparr>)]"

record zone_bounds =
  lat_min :: real
  lat_max :: real
  lng_min :: real
  lng_max :: real

record geo_zone =
  bounds :: zone_bounds
  description :: string

record eca_zone = geo_zone +
  fuel_sulfur_limit :: real

record piracy_zone = geo_zone +
  risk_level :: string

definition ECA_ZONES :: "(string \<times> eca_zone) list" where
  "ECA_ZONES =
    [(''North American ECA'',
        \<lparr>bounds = \<lparr>lat_min = 25, lat_max = 50, lng_min = - 130, lng_max = - 65\<rparr>,
         description = ''North American Emission Control Area'', fuel_sulfur_limit = 0.1\<rparr>),
     (''North Sea ECA'',
        \<lparr>bounds = \<lparr>lat_min = 51, lat_max = 62, lng_min = - 5, lng_max = 12\<rparr>,
         description = ''North Sea and English Channel ECA'', fuel_sulfur_limit = 0.1\<rparr>),
     (''Baltic Sea ECA'',
        \<lparr>bounds = \<lparr>lat_min = 53.5, lat_max = 66, lng_min = 10, lng_max = 30\<rparr>,
         description = ''Baltic Sea ECA'', fuel_sulfur_limit = 0.1\<rparr>)]"

definition PIRACY_ZONES :: "(string \<times> piracy_zone) list" where
  "PIRACY_ZONES =
    [(''Gulf of Aden'',
        \<lparr>bounds = \<lparr>lat_min = 10, lat_max = 18, lng_min = 42, lng_max = 52\<rparr>,
         description = ''High piracy risk area'', risk_level = ''HIGH''\<rparr>),
     (''West Africa'',
        \<lparr>bounds = \<lparr>lat_min = - 5, lat_max = 10, lng_min = - 10, lng_max = 8\<rparr>,
         description = ''Gulf of Guinea piracy zone'', risk_level = ''HIGH''\<rparr>),
     (''Strait of Malacca'',
        \<lparr>bounds = \<lparr>lat_min = 1, lat_max = 6, lng_min = 100, lng_max = 105\<rparr>,
         description = ''Moderate piracy risk'', risk_level = ''MEDIUM''\<rparr>)]"

subsection \<open>Utility functions\<close>

text \<open>
  The quantity \<^verbatim>\<open>a\<close> of both distance functions, on arguments already in radians.
\<close>

definition haversine_a :: "real \<Rightarrow> real \<Rightarrow> real \<Rightarrow> real \<Rightarrow> real" where
  "haversine_a lat1 lng1 lat2 lng2 =
     (let dlat = lat2 - lat1; dlng = lng2 - lng1
      in (sin (dlat / 2))\<^sup>2 + cos lat1 * cos lat2 * (sin (dlng / 2))\<^sup>2)"

definition calculate_great_circle_distance ::
  "real \<Rightarrow> real \<Rightarrow> real \<Rightarrow> real \<Rightarrow> py_exception + real" where
  "calculate_great_circle_distance lat1 lng1 lat2 lng2 =
     (let R = 3440.065;
          a = haversine_a (radians lat1) (radians lng1) (radians lat2) (radians lng2)
      in bind_exc (py_sqrt a) (\<lambda>s.
         bind_exc (py_asin s) (\<lambda>t.
         let c = 2 * t in Inr (R * c))))"

definition is_point_in_zone :: "real \<Rightarrow> real \<Rightarrow> zone_bounds \<Rightarrow> bool" where
  "is_point_in_zone la lo zb =
     (lat_min zb \<le> la \<and> la \<le> lat_max zb \<and> lng_min zb \<le> lo \<and> lo \<le> lng_max zb)"

subsection \<open>Risk assessment\<close>

text \<open>
  A finding keeps its type, its level and the value of its fourth key (the zone, the
  season, the factor or the two port names); the description text is left out.
\<close>

record risk_finding =
  risk_type :: string
  level :: string
  detail :: "string list"

record risk_assessment =
  overall_risk :: string
  risk_score :: int
  individual_risks :: "risk_finding list"
  recommendations :: "string set"

text \<open>The loop over \<^verbatim>\<open>PIRACY_ZONES.items()\<close>, on the pair \<open>(risks, risk_score)\<close>.\<close>

fun piracy_scan ::
  "(string \<times> piracy_zone) list \<Rightarrow> port \<Rightarrow> port \<Rightarrow> risk_finding list \<times> int \<Rightarrow> risk_finding list \<times> int" where
  "piracy_scan [] origin_coords dest_coords acc = acc"
| "piracy_scan ((zone_name, zone_data) # zs) origin_coords dest_coords (risks, score) =
     (if is_point_in_zone (lat origin_coords) (lng origin_coords) (bounds zone_data) \<or>
         is_point_in_zone (lat dest_coords) (lng dest_coords) (bounds zone_data)
      then piracy_scan zs origin_coords dest_coords
             (risks @ [\<lparr>risk_type = ''Piracy Risk'', level = risk_level zone_data, detail = [zone_name]\<rparr>],
              score + (if risk_level zone_data = ''HIGH'' then 35 else 20))
      else piracy_scan zs origin_coords dest_coords (risks, score))"

text \<open>
  \<^verbatim>\<open>next((name for name, coords in MAJOR_PORTS.items() if abs(coords["lat"] - la) < 0.1), "Unknown")\<close>
\<close>

definition port_name_near :: "real \<Rightarrow> string" where
  "port_name_near la =
     (case find (\<lambda>(name, coords). \<bar>lat coords - la\<bar> < 0.1) MAJOR_PORTS of
        Some (name, coords) \<Rightarrow> name
      | None \<Rightarrow> ''Unknown'')"

fun extend_recommendations :: "risk_finding list \<Rightarrow> string list \<Rightarrow> string list" where
  "extend_recommendations [] recs = recs"
| "extend_recommendations (risk # rest) recs =
     extend_recommendations rest
       (if risk_type risk = ''Piracy Risk'' then
          recs @ [''Follow BMP5 guidelines for piracy prevention'',
                  ''Increase watch vigilance in high-risk areas'',
                  ''Consider naval escort if available'']
        else if risk_type risk = ''Seasonal Weather'' then
          recs @ [''Plan flexible departure window'',
                  ''Increase fuel reserves for weather delays'',
                  ''Monitor tropical weather forecasts'']
        else if risk_type risk = ''Port Congestion'' then
          recs @ [''Confirm berth availability before arrival'',
                  ''Plan for potential anchor waiting time'']
        else recs)"

definition generate_risk_recommendations :: "risk_finding list \<Rightarrow> string set" where
  "generate_risk_recommendations risks =
     set (extend_recommendations risks [''Monitor weather updates every 6 hours''])"

definition assess_route_risks :: "port \<Rightarrow> port \<Rightarrow> date_field \<Rightarrow> py_exception + risk_assessment" where
  "assess_route_risks origin_coords dest_coords departure_date =
     (case piracy_scan PIRACY_ZONES origin_coords dest_coords ([], 0) of (risks1, score1) \<Rightarrow>
      bind_exc (date_fromisoformat departure_date) (\<lambda>(dep_year, dep_month, dep_day).
      let (risks2, score2) =
            (if dep_month \<in> set [6, 7, 8, 9, 10]
             then (risks1 @ [\<lparr>risk_type = ''Seasonal Weather'', level = ''MEDIUM'', detail = [''storm_season'']\<rparr>],
                   score1 + 20)
             else (risks1, score1));
          (risks3, score3) =
            (if 40 < \<bar>lat origin_coords - lat dest_coords\<bar>
             then (risks2 @ [\<lparr>risk_type = ''Weather Variation'', level = ''MEDIUM'', detail = [''latitude_change'']\<rparr>],
                   score2 + 15)
             else (risks2, score2));
          busy_ports = [''Singapore'', ''Shanghai'', ''Rotterdam'', ''Los Angeles''];
          origin_name = port_name_near (lat origin_coords);
          dest_name = port_name_near (lat dest_coords);
          (risks, score) =
            (if origin_name \<in> set busy_ports \<or> dest_name \<in> set busy_ports
             then (risks3 @ [\<lparr>risk_type = ''Port Congestion'', level = ''LOW'', detail = [origin_name, dest_name]\<rparr>],
                   score3 + 10)
             else (risks3, score3));
          overall = (if 50 \<le> score then ''HIGH'' else if 25 \<le> score then ''MEDIUM'' else ''LOW'')
      in Inr \<lparr>overall_risk = overall,
              risk_score = min score 100,
              individual_risks = risks,
              recommendations = generate_risk_recommendations risks\<rparr>))"

subsection \<open>ECA compliance, waypoints, fuel stops\<close>

fun eca_scan :: "(string \<times> eca_zone) list \<Rightarrow> port \<Rightarrow> port \<Rightarrow> string list" where
  "eca_scan [] origin_coords dest_coords = []"
| "eca_scan ((zone_name, zone_data) # zs) origin_coords dest_coords =
     (if is_point_in_zone (lat origin_coords) (lng origin_coords) (bounds zone_data) \<or>
         is_point_in_zone (lat dest_coords) (lng dest_coords) (bounds zone_data)
      then zone_name # eca_scan zs origin_coords dest_coords
      else eca_scan zs origin_coords dest_coords)"

text \<open>The constant sulfur-limit texts of the answer are left out.\<close>

record eca_compliance =
  eca_zones_crossed :: "string list"
  compliance_costs :: int

definition calculate_eca_compliance :: "port \<Rightarrow> port \<Rightarrow> eca_compliance" where
  "calculate_eca_compliance origin_coords dest_coords =
     (let crossed = eca_scan ECA_ZONES origin_coords dest_coords
      in \<lparr>eca_zones_crossed = crossed, compliance_costs = int (length crossed) * 15000\<rparr>)"

record waypoint =
  wp_lat :: real
  wp_lng :: real
  waypoint_id :: nat

definition generate_route_coordinates :: "port \<Rightarrow> port \<Rightarrow> nat \<Rightarrow> py_exception + waypoint list" where
  "generate_route_coordinates origin_coords dest_coords num_waypoints =
     (if num_waypoints = 0 then Inl ZeroDivisionError
      else Inr (map (\<lambda>i. let ratio = real i / real num_waypoints
                          in \<lparr>wp_lat = lat origin_coords + (lat dest_coords - lat origin_coords) * ratio,
                              wp_lng = lng origin_coords + (lng dest_coords - lng origin_coords) * ratio,
                              waypoint_id = i\<rparr>)
                    [0 ..< num_waypoints + 1]))"

record fuel_stop =
  stop_port_name :: string
  stop_coordinates :: "real \<times> real"
  stop_fuel_needed_tons :: real
  fuel_price_per_ton :: real
  estimated_cost :: real
  distance_from_origin :: real

definition calculate_fuel_stops :: "real \<Rightarrow> real \<Rightarrow> real \<Rightarrow> py_exception + fuel_stop list" where
  "calculate_fuel_stops distance fuel_capacity_tons daily_consumption =
     (if daily_consumption = 0 then Inl ZeroDivisionError
      else let max_range_nm = (fuel_capacity_tons / daily_consumption) * 24 * 14
           in if distance \<le> max_range_nm then Inr []
              else if 7000 < distance
                   then Inr [\<lparr>stop_port_name = ''Fujairah'', stop_coordinates = (25.1164, 56.3467),
                              stop_fuel_needed_tons = 800, fuel_price_per_ton = 645,
                              estimated_cost = 800 * 645, distance_from_origin = 4500\<rparr>]
                   else Inr [])"

subsection \<open>The route planning endpoint\<close>

text \<open>
  The request keys that the computation reads. \<^verbatim>\<open>draft\<close>, \<^verbatim>\<open>laycan_start\<close> and
  \<^verbatim>\<open>laycan_end\<close> are only echoed into the answer and are left out, with the parts of
  the answer that echo them (\<^verbatim>\<open>vessel_info\<close>, \<^verbatim>\<open>laycan_analysis\<close>, the arrival date).
\<close>

record route_plan_request =
  req_origin :: "string option"
  req_destination :: "string option"
  req_ship_type :: "string option"
  req_deadweight :: "real option"
  req_bunker_on_board :: "real option"
  req_cargo_value :: "real option"
  req_departure_date :: "date_field option"
  req_weather_optimized :: "bool option"

record route_summary =
  origin_name :: string
  destination_name :: string
  distance_nm :: int
  voyage_days :: int
  summary_avg_speed_knots :: real

record fuel_analysis =
  consumption_tons :: int
  daily_consumption :: int
  weather_factor :: real
  fuel_stops_required :: nat
  fuel_stops :: "fuel_stop list"
  bunker_price_avg :: int

record cost_breakdown =
  fuel_cost :: int
  port_cost :: int
  canal_cost :: int
  canal_name :: "string option"
  insurance_cost :: int
  compliance_cost :: int
  other_costs :: int
  total_cost :: int

record route_option =
  route_name :: "string option"
  route_type :: string
  coordinates :: "waypoint list"
  cost :: int
  days :: int
  route_risk_level :: string
  fuel_consumption :: int

record route_plan_result =
  summary :: route_summary
  fuel :: fuel_analysis
  costs :: cost_breakdown
  risk :: risk_assessment
  regulatory_compliance :: eca_compliance
  main_route :: route_option
  alternate_routes :: "route_option list"

text \<open>The canal block: the two \<^verbatim>\<open>any(... in route_key ...)\<close> tests on the string
  \<^verbatim>\<open>f"{origin}-{destination}"\<close>.\<close>

definition canal_heuristic :: "string \<Rightarrow> string \<Rightarrow> bool" where
  "canal_heuristic origin destination =
     (let route_key = origin @ ''-'' @ destination
      in list_ex (\<lambda>x. py_in x route_key) [''Singapore'', ''Rotterdam'', ''Hamburg'', ''Antwerp''] \<and>
         list_ex (\<lambda>y. py_in y route_key) [''Middle East'', ''Asia'', ''Europe''])"

definition canal_costs :: "string \<Rightarrow> string \<Rightarrow> int \<times> string option" where
  "canal_costs origin destination =
     (if canal_heuristic origin destination then (222865, Some ''Suez Canal'') else (0, None))"

text \<open>The weather factor on fuel consumption.\<close>

definition weather_factor_of :: "bool \<Rightarrow> date_field \<Rightarrow> py_exception + real" where
  "weather_factor_of weather_optimized departure_date =
     (if weather_optimized then Inr 0.95
      else bind_exc (date_fromisoformat departure_date) (\<lambda>(dep_year, dep_month, dep_day).
           if dep_month \<in> set [11, 12, 1, 2, 3] then Inr 1.15
           else if dep_month \<in> set [6, 7, 8, 9] then Inr 1.10
           else Inr 1.0))"

text \<open>The body of the endpoint after the references are resolved.\<close>

definition plan_route ::
  "string \<Rightarrow> string \<Rightarrow> port \<Rightarrow> port \<Rightarrow> ship_spec \<Rightarrow> real \<Rightarrow> real \<Rightarrow> real \<Rightarrow> date_field \<Rightarrow> bool
     \<Rightarrow> py_exception + route_plan_result" where
  "plan_route origin destination origin_coords dest_coords spec deadweight bunker_on_board
      cargo_value departure_date weather_optimized =
     bind_exc (calculate_great_circle_distance (lat origin_coords) (lng origin_coords)
                 (lat dest_coords) (lng dest_coords)) (\<lambda>base_distance.
     let routing_factor = 1.15;
         actual_distance = base_distance * routing_factor;
         avg_speed = avg_speed_knots spec
     in if avg_speed * 24 = 0 then Inl ZeroDivisionError else
     let voyage_days = \<lceil>actual_distance / (avg_speed * 24)\<rceil>;
         daily_fuel_consumption = fuel_rate_tons_per_day spec * fuel_efficiency_factor spec
     in bind_exc (weather_factor_of weather_optimized departure_date) (\<lambda>weather_factor.
     let total_fuel_consumption = of_int voyage_days * daily_fuel_consumption * weather_factor;
         avg_bunker_price = (bunker_price origin_coords + bunker_price dest_coords) / 2;
         fuel_cost = total_fuel_consumption * avg_bunker_price;
         port_cost_origin = deadweight * port_cost_per_ton origin_coords + 25000;
         port_cost_dest = deadweight * port_cost_per_ton dest_coords + 25000;
         total_port_costs = port_cost_origin + port_cost_dest;
         (canal_cost, canal_name) = canal_costs origin destination;
         insurance_cost = cargo_value * 0.001;
         other_costs = 50000;
         eca = calculate_eca_compliance origin_coords dest_coords;
         compliance_costs = compliance_costs eca;
         total_cost = fuel_cost + total_port_costs + of_int canal_cost + insurance_cost
                        + of_int other_costs + of_int compliance_costs
     in bind_exc (assess_route_risks origin_coords dest_coords departure_date) (\<lambda>risk_assessment.
        bind_exc (calculate_fuel_stops actual_distance bunker_on_board daily_fuel_consumption) (\<lambda>fuel_stops.
        bind_exc (generate_route_coordinates origin_coords dest_coords 10) (\<lambda>main_route_coords.
     let alt_cost_factor = (if overall_risk risk_assessment = ''HIGH'' then 1.12 else 1.08);
         safety_route =
           \<lparr>route_name = Some ''Safety Route'', route_type = ''alternate'',
            coordinates = main_route_coords,
            cost = py_round (total_cost * alt_cost_factor),
            days = voyage_days + 2,
            route_risk_level = ''LOW'',
            fuel_consumption = py_round (total_fuel_consumption * alt_cost_factor)\<rparr>;
         weather_savings = 0.95;
         weather_route =
           \<lparr>route_name = Some ''Weather Optimized'', route_type = ''weather'',
            coordinates = main_route_coords,
            cost = py_round (total_cost * weather_savings),
            days = voyage_days - 1,
            route_risk_level = ''MEDIUM'',
            fuel_consumption = py_round (total_fuel_consumption * weather_savings)\<rparr>;
         alternate_routes = safety_route # (if \<not> weather_optimized then [weather_route] else [])
     in Inr
          \<lparr>summary =
             \<lparr>origin_name = origin, destination_name = destination,
              distance_nm = py_round actual_distance, voyage_days = voyage_days,
              summary_avg_speed_knots = avg_speed\<rparr>,
           fuel =
             \<lparr>consumption_tons = py_round total_fuel_consumption,
              daily_consumption = py_round daily_fuel_consumption,
              weather_factor = weather_factor,
              fuel_stops_required = length fuel_stops,
              fuel_stops = fuel_stops,
              bunker_price_avg = py_round avg_bunker_price\<rparr>,
           costs =
             \<lparr>fuel_cost = py_round fuel_cost,
              port_cost = py_round total_port_costs,
              canal_cost = canal_cost,
              canal_name = canal_name,
              insurance_cost = py_round insurance_cost,
              compliance_cost = compliance_costs,
              other_costs = other_costs,
              total_cost = py_round total_cost\<rparr>,
           risk = risk_assessment,
           regulatory_compliance = eca,
           main_route =
             \<lparr>route_name = None, route_type = ''main'',
              coordinates = main_route_coords,
              cost = py_round total_cost,
              days = voyage_days,
              route_risk_level = overall_risk risk_assessment,
              fuel_consumption = py_round total_fuel_consumption\<rparr>,
           alternate_routes = alternate_routes\<rparr>)))))"

definition maritime_route_plan :: "route_plan_request \<Rightarrow> error + route_plan_result" where
  "maritime_route_plan data =
     (let origin = get_or (req_origin data) ''Singapore'';
          destination = get_or (req_destination data) ''Rotterdam'';
          ship_type = get_or (req_ship_type data) ''container'';
          deadweight = get_or (req_deadweight data) 50000;
          bunker_on_board = get_or (req_bunker_on_board data) 500;
          cargo_value = get_or (req_cargo_value data) 2500000;
          departure_date = get_or (req_departure_date data) (Iso_date 2025 9 1);
          weather_optimized = get_or (req_weather_optimized data) False
      in case (map_of MAJOR_PORTS origin, map_of MAJOR_PORTS destination) of
           (Some origin_coords, Some dest_coords) \<Rightarrow>
             (case map_of SHIP_TYPES ship_type of
                None \<Rightarrow> Inl Invalid_ship_type
              | Some spec \<Rightarrow>
                  (case plan_route origin destination origin_coords dest_coords spec deadweight
                          bunker_on_board cargo_value departure_date weather_optimized of
                     Inl e \<Rightarrow> Inl Internal_error
                   | Inr response \<Rightarrow> Inr response))
         | _ \<Rightarrow> Inl Invalid_port_selection)"

section \<open>Voyage leg simulator (simu_routes.py)\<close>

subsection \<open>Reference data\<close>

record bunkering_port =
  bp_lat :: real
  bp_lng :: real
  bp_bunker_price :: real

definition BUNKERING_PORTS :: "(string \<times> bunkering_port) list" where
  "BUNKERING_PORTS =
    [(''Singapore'', \<lparr>bp_lat = 1.3521, bp_lng = 103.8198, bp_bunker_price = 680\<rparr>),
     (''Rotterdam'', \<lparr>bp_lat = 51.9225, bp_lng = 4.4792, bp_bunker_price = 650\<rparr>),
     (''Fujairah'', \<lparr>bp_lat = 25.1164, bp_lng = 56.3467, bp_bunker_price = 645\<rparr>),
     (''Gibraltar'', \<lparr>bp_lat = 36.1408, bp_lng = - 5.3536, bp_bunker_price = 660\<rparr>)]"

text \<open>
  The simulator's own \<^verbatim>\<open>SHIP_TYPES\<close>. Every entry has the three keys that the loop
  reads with \<^verbatim>\<open>.get(key, default)\<close>, so the defaults are never used.
\<close>

record sim_ship_spec =
  sim_ship_name :: string
  sim_fuel_rate_tons_per_day :: real
  sim_avg_speed_knots :: real
  fuel_capacity_tons :: real

definition SIM_SHIP_TYPES :: "(string \<times> sim_ship_spec) list" where
  "SIM_SHIP_TYPES =
    [(''container'', \<lparr>sim_ship_name = ''Container Ship'', sim_fuel_rate_tons_per_day = 45,
        sim_avg_speed_knots = 18, fuel_capacity_tons = 5000\<rparr>),
     (''bulk'', \<lparr>sim_ship_name = ''Bulk Carrier'', sim_fuel_rate_tons_per_day = 35,
        sim_avg_speed_knots = 14, fuel_capacity_tons = 4000\<rparr>),
     (''tanker'', \<lparr>sim_ship_name = ''Oil Tanker'', sim_fuel_rate_tons_per_day = 40,
        sim_avg_speed_knots = 15, fuel_capacity_tons = 4500\<rparr>)]"

subsection \<open>Distance\<close>

text \<open>
  The float evaluation of \<^verbatim>\<open>a\<close> differs from its exact value by a rounding error, and
  the sign of that error decides whether \<^verbatim>\<open>math.sqrt(a)\<close> and \<^verbatim>\<open>math.sqrt(1 - a)\<close> are
  defined. The error is an argument of the model: \<open>rnd lat1 lon1 lat2 lon2\<close> is the
  error of the computed \<^verbatim>\<open>a\<close> at these arguments, and \<open>no_rounding\<close> is exact
  arithmetic. From \<open>(8, 0)\<close> to \<open>(-8, 180)\<close> the exact value is 1 and the double that
  the code computes is \<^verbatim>\<open>1.0000000000000002\<close>, which is \<open>1 + 1 / 2 ^ 52\<close>.
\<close>

type_synonym rounding = "real \<Rightarrow> real \<Rightarrow> real \<Rightarrow> real \<Rightarrow> real"

definition no_rounding :: rounding where
  "no_rounding lat1 lon1 lat2 lon2 = 0"

definition calculate_distance :: "rounding \<Rightarrow> real \<Rightarrow> real \<Rightarrow> real \<Rightarrow> real \<Rightarrow> py_exception + real" where
  "calculate_distance rnd lat1 lon1 lat2 lon2 =
     (let R = 3440.065;
          a = haversine_a (radians lat1) (radians lon1) (radians lat2) (radians lon2)
                + rnd lat1 lon1 lat2 lon2
      in bind_exc (py_sqrt a) (\<lambda>s.
         bind_exc (py_sqrt (1 - a)) (\<lambda>s'.
         let c = 2 * atan2 s s' in Inr (R * c))))"

subsection \<open>Request, legs and result\<close>

text \<open>
  \<^verbatim>\<open>stw\<close> and \<^verbatim>\<open>newStw\<close> are any float: \<^verbatim>\<open>float()\<close> and the JSON reader accept NaN
  and the infinities. Waypoint coordinates and prices are finite numbers.
\<close>

record speed_adjustment =
  legIndex :: "int option"
  newStw :: "pyfloat option"

text \<open>
  \<open>laycan_end\<close> is \<^verbatim>\<open>laycan.get("end")\<close>. The default start time
  \<^verbatim>\<open>2025-09-21T00:00:00Z\<close> is taken as the origin of the time line.
\<close>

record sim_request =
  waypoints :: "(real \<times> real) list"
  startTime :: "time_field option"
  stw :: "pyfloat option"
  bunker_price_usd_mt :: "real option"
  co2_price_usd_mt :: "real option"
  laycan_end :: "time_field option"
  speedAdjustments :: "speed_adjustment list option"
  shipType :: "string option"

record leg =
  leg_index :: nat
  from_wp :: "real \<times> real"
  to_wp :: "real \<times> real"
  leg_distance_nm :: real
  stw_commanded :: pyfloat
  stw_effective :: pyfloat
  sog :: pyfloat
  leg_hours :: real
  fuel_consumption_mt :: pyfloat
  arrivalTime :: datetime
  penalty_wave :: real
  penalty_wind :: real
  c_parallel :: real

text \<open>The variables that the leg loop updates.\<close>

record sim_state =
  legs :: "leg list"
  total_dist_nm :: real
  total_hours :: real
  total_fuel :: pyfloat
  current_time :: datetime

record sim_fuel_stop =
  port_name :: string
  fuel_needed_tons :: pyfloat

record sim_result =
  result_legs :: "leg list"
  total_distance_nm :: real
  voyage_hours :: real
  total_fuel_consumption_mt :: pyfloat
  eta :: datetime
  bunker_cost_usd :: int
  co2_cost_usd :: int
  total_voyage_cost_usd :: int
  laycan_status :: string
  diffHours :: real
  sim_fuel_stops :: "sim_fuel_stop list"

subsection \<open>One leg\<close>

text \<open>The commanded speed of leg \<open>i\<close>: the first adjustment for that leg, if any.\<close>

definition commanded_speed :: "pyfloat \<Rightarrow> speed_adjustment list option \<Rightarrow> nat \<Rightarrow> pyfloat" where
  "commanded_speed stw_base speed_adjustments i =
     (case speed_adjustments of
        None \<Rightarrow> stw_base
      | Some adjs \<Rightarrow>
          (case find (\<lambda>adj. legIndex adj = Some (int i)) adjs of
             None \<Rightarrow> stw_base
           | Some adjustment \<Rightarrow> get_or (newStw adjustment) stw_base))"

text \<open>
  Speed over ground from the commanded speed and the three draws
  \<open>(wind_effect, wave_effect, current_effect)\<close>, with the minimum speed applied by
  \<^verbatim>\<open>if sog < 1.0: sog = 1.0\<close>. The test is false for NaN, which stays.
\<close>

definition speed_over_ground :: "pyfloat \<Rightarrow> real \<times> real \<times> real \<Rightarrow> pyfloat" where
  "speed_over_ground current_stw draw =
     (case draw of (wind_effect, wave_effect, current_effect) \<Rightarrow>
        let stw_eff = fadd (fadd current_stw (Finite wind_effect)) (Finite wave_effect);
            sog0 = fadd stw_eff (Finite current_effect)
        in if flt sog0 (Finite 1.0) then Finite 1.0 else sog0)"

text \<open>\<^verbatim>\<open>leg_hours = dist_nm / sog if sog > 0 else float('inf')\<close>\<close>

definition leg_hours_of :: "real \<Rightarrow> pyfloat \<Rightarrow> py_exception + pyfloat" where
  "leg_hours_of dist_nm sog_v =
     (if flt (Finite 0) sog_v then fdiv (Finite dist_nm) sog_v else Inr PInf)"

text \<open>
  \<^verbatim>\<open>(base_fuel_per_day / 24) * leg_hours * (current_stw / design_speed) ** 3\<close>
\<close>

definition leg_fuel_consumption :: "sim_ship_spec \<Rightarrow> pyfloat \<Rightarrow> pyfloat \<Rightarrow> py_exception + pyfloat" where
  "leg_fuel_consumption spec hours current_stw =
     (let base_fuel_per_day = sim_fuel_rate_tons_per_day spec;
          design_speed = sim_avg_speed_knots spec
      in bind_exc (fdiv current_stw (Finite design_speed)) (\<lambda>ratio.
         Inr (fmul (fmul (Finite (base_fuel_per_day / 24)) hours) (fpow3 ratio))))"

text \<open>
  The loop body for leg \<open>i\<close>. The random source is the argument \<open>draws\<close>, which gives
  the three draws of each leg.
\<close>

definition simulate_leg ::
  "rounding \<Rightarrow> sim_ship_spec \<Rightarrow> pyfloat \<Rightarrow> speed_adjustment list option
     \<Rightarrow> (nat \<Rightarrow> real \<times> real \<times> real) \<Rightarrow> nat
     \<Rightarrow> real \<times> real \<Rightarrow> real \<times> real \<Rightarrow> sim_state \<Rightarrow> py_exception + sim_state" where
  "simulate_leg rnd spec stw_base speed_adjustments draws i wp_from wp_to st =
     bind_exc (calculate_distance rnd (fst wp_from) (snd wp_from) (fst wp_to) (snd wp_to)) (\<lambda>dist_nm.
     let current_stw = commanded_speed stw_base speed_adjustments i;
         wind_effect = fst (draws i);
         wave_effect = fst (snd (draws i));
         current_effect = snd (snd (draws i));
         stw_eff = fadd (fadd current_stw (Finite wind_effect)) (Finite wave_effect);
         sog_v = speed_over_ground current_stw (draws i)
     in bind_exc (leg_hours_of dist_nm sog_v) (\<lambda>hours.
        bind_exc (leg_fuel_consumption spec hours current_stw) (\<lambda>fuel_mt.
        bind_exc (timedelta_hours hours) (\<lambda>h.
        let arrival_time = add_hours (current_time st) h
        in Inr \<lparr>legs = legs st @
                   [\<lparr>leg_index = i, from_wp = wp_from, to_wp = wp_to,
                     leg_distance_nm = round2 dist_nm,
                     stw_commanded = fround2 current_stw,
                     stw_effective = fround2 stw_eff,
                     sog = fround2 sog_v,
                     leg_hours = round2 h,
                     fuel_consumption_mt = fround2 fuel_mt,
                     arrivalTime = arrival_time,
                     penalty_wave = round2 (- wave_effect),
                     penalty_wind = round2 (- wind_effect),
                     c_parallel = round2 current_effect\<rparr>],
                total_dist_nm = total_dist_nm st + dist_nm,
                total_hours = total_hours st + h,
                total_fuel = fadd (total_fuel st) fuel_mt,
                current_time = arrival_time\<rparr>))))"

text \<open>\<^verbatim>\<open>for i in range(len(waypoints) - 1)\<close>, from leg \<open>i\<close> on the remaining waypoints.\<close>

fun leg_loop ::
  "rounding \<Rightarrow> sim_ship_spec \<Rightarrow> pyfloat \<Rightarrow> speed_adjustment list option
     \<Rightarrow> (nat \<Rightarrow> real \<times> real \<times> real) \<Rightarrow> nat
     \<Rightarrow> (real \<times> real) list \<Rightarrow> sim_state \<Rightarrow> py_exception + sim_state" where
  "leg_loop rnd spec stw_base adjs draws i (wp_from # wp_to # rest) st =
     bind_exc (simulate_leg rnd spec stw_base adjs draws i wp_from wp_to st)
       (leg_loop rnd spec stw_base adjs draws (Suc i) (wp_to # rest))"
| "leg_loop rnd spec stw_base adjs draws i [wp] st = Inr st"
| "leg_loop rnd spec stw_base adjs draws i [] st = Inr st"

subsection \<open>After the loop\<close>

definition laycan_status_of :: "real \<Rightarrow> string" where
  "laycan_status_of diff =
     (if diff < 0 then ''late'' else if 48 < diff then ''early'' else ''on_time'')"

text \<open>
  The laycan analysis: \<^verbatim>\<open>laycan.get("end")\<close> of a request without that key is
  \<^verbatim>\<open>None\<close>, and \<^verbatim>\<open>None.replace\<close> raises \<^verbatim>\<open>AttributeError\<close>.
\<close>

definition laycan_analysis :: "time_field option \<Rightarrow> datetime \<Rightarrow> py_exception + string \<times> real" where
  "laycan_analysis laycan_end_field now =
     (case laycan_end_field of
        None \<Rightarrow> Inl AttributeError
      | Some field \<Rightarrow>
          bind_exc (time_fromisoformat field) (\<lambda>laycan_end_time.
          bind_exc (diff_hours laycan_end_time now) (\<lambda>diff.
          Inr (laycan_status_of diff, diff))))"

text \<open>\<^verbatim>\<open>min(BUNKERING_PORTS, key=...)\<close>: the first key with the lowest price.\<close>

fun cheapest_from :: "string \<times> bunkering_port \<Rightarrow> (string \<times> bunkering_port) list \<Rightarrow> string" where
  "cheapest_from best [] = fst best"
| "cheapest_from best (p # ps) =
     (if bp_bunker_price (snd p) < bp_bunker_price (snd best)
      then cheapest_from p ps else cheapest_from best ps)"

definition cheapest_port_of :: "(string \<times> bunkering_port) list \<Rightarrow> py_exception + string" where
  "cheapest_port_of ports = (case ports of [] \<Rightarrow> Inl ValueError | p # ps \<Rightarrow> Inr (cheapest_from p ps))"

definition init_state :: "datetime \<Rightarrow> sim_state" where
  "init_state start =
     \<lparr>legs = [], total_dist_nm = 0, total_hours = 0, total_fuel = Finite 0, current_time = start\<rparr>"

text \<open>The body of the endpoint after the ship type is resolved.\<close>

definition run_simulation ::
  "rounding \<Rightarrow> (nat \<Rightarrow> real \<times> real \<times> real) \<Rightarrow> sim_ship_spec \<Rightarrow> sim_request
     \<Rightarrow> py_exception + sim_result" where
  "run_simulation rnd draws spec data =
     bind_exc (time_fromisoformat (get_or (startTime data) (Iso_time (Datetime True 0)))) (\<lambda>start.
     bind_exc (leg_loop rnd spec (get_or (stw data) (Finite 14)) (speedAdjustments data) draws 0
                 (waypoints data) (init_state start)) (\<lambda>st.
     bind_exc (laycan_analysis (laycan_end data) (current_time st)) (\<lambda>(status, diff).
     let bunker_cost = fmul (total_fuel st) (Finite (get_or (bunker_price_usd_mt data) 650));
         co2_cost = fmul (fmul (total_fuel st) (Finite 3.17))
                      (Finite (get_or (co2_price_usd_mt data) 90));
         total_voyage_cost = fadd bunker_cost co2_cost;
         fuel_capacity = fuel_capacity_tons spec
     in bind_exc (if flt (Finite fuel_capacity) (total_fuel st)
                  then bind_exc (cheapest_port_of BUNKERING_PORTS) (\<lambda>cheapest_port.
                         Inr [\<lparr>port_name = cheapest_port,
                               fuel_needed_tons =
                                 fround2 (fadd (fsub (total_fuel st) (Finite fuel_capacity))
                                            (Finite 500))\<rparr>])
                  else Inr []) (\<lambda>stops.
        bind_exc (fpy_round bunker_cost) (\<lambda>bunker_rounded.
        bind_exc (fpy_round co2_cost) (\<lambda>co2_rounded.
        bind_exc (fpy_round total_voyage_cost) (\<lambda>total_rounded.
        Inr \<lparr>result_legs = legs st,
             total_distance_nm = round2 (total_dist_nm st),
             voyage_hours = round2 (total_hours st),
             total_fuel_consumption_mt = fround2 (total_fuel st),
             eta = current_time st,
             bunker_cost_usd = bunker_rounded,
             co2_cost_usd = co2_rounded,
             total_voyage_cost_usd = total_rounded,
             laycan_status = status,
             diffHours = round2 diff,
             sim_fuel_stops = stops\<rparr>)))))))"

definition simulate_route ::
  "rounding \<Rightarrow> (nat \<Rightarrow> real \<times> real \<times> real) \<Rightarrow> sim_request \<Rightarrow> error + sim_result" where
  "simulate_route rnd draws data =
     (let ship_type = get_or (shipType data) ''container''
      in case map_of SIM_SHIP_TYPES ship_type of
           None \<Rightarrow> Inl Invalid_ship_type
         | Some spec \<Rightarrow>
             (case run_simulation rnd draws spec data of
                Inl e \<Rightarrow> Inl Internal_error
              | Inr response \<Rightarrow> Inr response))"

section \<open>Sample requests\<close>

text \<open>Concrete inputs, used where a statement is evaluated.\<close>

definition calm_draws :: "nat \<Rightarrow> real \<times> real \<times> real" where
  "calm_draws i = (0, - 0.5, 0)"

text \<open>
  The rounding error observed from \<open>(8, 0)\<close> to \<open>(-8, 180)\<close>, where the code computes
  \<^verbatim>\<open>a = 1.0000000000000002\<close>; no error elsewhere.
\<close>

definition antipodal_rounding :: rounding where
  "antipodal_rounding lat1 lon1 lat2 lon2 =
     (if lat1 = 8 \<and> lon1 = 0 \<and> lat2 = - 8 \<and> lon2 = 180 then 1 / 2 ^ 52 else 0)"

definition empty_voyage :: sim_request where
  "empty_voyage =
     \<lparr>waypoints = [], startTime = None, stw = None, bunker_price_usd_mt = None,
      co2_price_usd_mt = None, laycan_end = Some (Iso_time (Datetime True 50)),
      speedAdjustments = None, shipType = None\<rparr>"

definition still_voyage :: sim_request where
  "still_voyage =
     \<lparr>waypoints = [(10, 20), (10, 20)], startTime = None, stw = None, bunker_price_usd_mt = None,
      co2_price_usd_mt = None, laycan_end = Some (Iso_time (Datetime True 50)),
      speedAdjustments = None, shipType = None\<rparr>"

definition container_sim_spec :: sim_ship_spec where
  "container_sim_spec =
     \<lparr>sim_ship_name = ''Container Ship'', sim_fuel_rate_tons_per_day = 45,
      sim_avg_speed_knots = 18, fuel_capacity_tons = 5000\<rparr>"

definition unknown_ship_voyage :: sim_request where
  "unknown_ship_voyage =
     \<lparr>waypoints = [], startTime = None, stw = None, bunker_price_usd_mt = None,
      co2_price_usd_mt = None, laycan_end = Some (Iso_time (Datetime True 50)),
      speedAdjustments = None, shipType = Some ''submarine''\<rparr>"

definition unknown_port_request :: route_plan_request where
  "unknown_port_request =
     \<lparr>req_origin = Some ''Atlantis'', req_destination = None, req_ship_type = None,
      req_deadweight = None, req_bunker_on_board = None, req_cargo_value = None,
      req_departure_date = None, req_weather_optimized = None\<rparr>"

definition unknown_ship_request :: route_plan_request where
  "unknown_ship_request =
     \<lparr>req_origin = None, req_destination = None, req_ship_type = Some ''submarine'',
      req_deadweight = None, req_bunker_on_board = None, req_cargo_value = None,
      req_departure_date = None, req_weather_optimized = None\<rparr>"

definition there_and_back_voyage :: sim_request where
  "there_and_back_voyage =
     \<lparr>waypoints = [(0, 0), (0, 180), (0, 0)], startTime = None, stw = None,
      bunker_price_usd_mt = None, co2_price_usd_mt = None,
      laycan_end = Some (Iso_time (Datetime True 50)),
      speedAdjustments = None, shipType = None\<rparr>"

definition aden_point :: port where
  "aden_point = \<lparr>lat = 12, lng = 45, country = ''Yemen'', bunker_price = 650, port_cost_per_ton = 0.8\<rparr>"

definition rounding_request :: route_plan_request where
  "rounding_request =
     \<lparr>req_origin = Some ''Singapore'', req_destination = Some ''Hong Kong'',
      req_ship_type = Some ''container'', req_deadweight = Some 4, req_bunker_on_board = None,
      req_cargo_value = Some 400, req_departure_date = Some (Iso_date 2025 4 1),
      req_weather_optimized = Some False\<rparr>"

definition default_plan_request :: route_plan_request where
  "default_plan_request =
     \<lparr>req_origin = None, req_destination = None, req_ship_type = None, req_deadweight = None,
      req_bunker_on_board = None, req_cargo_value = None, req_departure_date = None,
      req_weather_optimized = None\<rparr>"

section \<open>Properties of the distance functions\<close>

lemma sin_half_sq: "(sin (x / 2))\<^sup>2 = (1 - cos x) / (2::real)"
  using cos_double_sin [of "x / 2"] by simp

lemma cos_prod: "cos p * cos q = (cos (q - p) + cos (p + q)) / (2::real)"
  by (simp add: cos_diff cos_add)

lemma sin_sq_le_1: "(sin (x::real))\<^sup>2 \<le> 1"
  using sin_cos_squared_add [of x] zero_le_power2 [of "cos x"] by linarith

lemma half_cos_bounds:
  "0 \<le> (1 + cos (x::real)) / 2" "(1 + cos x) / 2 \<le> 1"
  "0 \<le> (1 - cos x) / 2" "(1 - cos x) / 2 \<le> 1"
proof -
  have p: "0 \<le> 1 + cos x" using cos_ge_minus_one [of x] by linarith
  have m: "0 \<le> 1 - cos x" using cos_le_one [of x] by linarith
  show "0 \<le> (1 + cos x) / 2" using p by simp
  show "(1 + cos x) / 2 \<le> 1" using m by simp
  show "0 \<le> (1 - cos x) / 2" using m by simp
  show "(1 - cos x) / 2 \<le> 1" using p by simp
qed

text \<open>
  The quantity \<open>a\<close> is a convex combination of two numbers of the unit interval, with
  weight \<open>sin\<^sup>2 (dlng / 2)\<close>; so it lies in the unit interval for all arguments, also
  for latitudes beyond the poles.
\<close>

lemma haversine_a_convex:
  "haversine_a p1 l1 p2 l2 =
     (1 - (sin ((l2 - l1) / 2))\<^sup>2) * ((1 - cos (p2 - p1)) / 2)
       + (sin ((l2 - l1) / 2))\<^sup>2 * ((1 + cos (p1 + p2)) / 2)"
proof -
  define s where "s = (sin ((l2 - l1) / 2))\<^sup>2"
  define c where "c = cos (p2 - p1)"
  define d where "d = cos (p1 + p2)"
  have "haversine_a p1 l1 p2 l2 = (1 - c) / 2 + ((c + d) / 2) * s"
    unfolding haversine_a_def Let_def s_def c_def d_def
    by (simp only: sin_half_sq [of "p2 - p1"] cos_prod [of p1 p2])
  also have "\<dots> = (1 - s) * ((1 - c) / 2) + s * ((1 + d) / 2)"
    by (simp add: field_simps)
  finally show ?thesis unfolding s_def c_def d_def .
qed

lemma haversine_a_nonneg: "0 \<le> haversine_a p1 l1 p2 l2"
proof -
  let ?s = "(sin ((l2 - l1) / 2))\<^sup>2"
  have "0 \<le> 1 - ?s" using sin_sq_le_1 [of "(l2 - l1) / 2"] by simp
  then have "0 \<le> (1 - ?s) * ((1 - cos (p2 - p1)) / 2)"
    by (intro mult_nonneg_nonneg half_cos_bounds)
  moreover have "0 \<le> ?s * ((1 + cos (p1 + p2)) / 2)"
    by (intro mult_nonneg_nonneg half_cos_bounds) simp
  ultimately show ?thesis unfolding haversine_a_convex by linarith
qed

lemma haversine_a_le_1: "haversine_a p1 l1 p2 l2 \<le> 1"
proof -
  let ?s = "(sin ((l2 - l1) / 2))\<^sup>2"
  have s1: "0 \<le> 1 - ?s" using sin_sq_le_1 [of "(l2 - l1) / 2"] by simp
  have s0: "0 \<le> ?s" by simp
  have a: "(1 - ?s) * ((1 - cos (p2 - p1)) / 2) \<le> 1 - ?s"
    using mult_left_mono [OF half_cos_bounds(4) s1, of "p2 - p1"] by simp
  have b: "?s * ((1 + cos (p1 + p2)) / 2) \<le> ?s"
    using mult_left_mono [OF half_cos_bounds(2) s0, of "p1 + p2"] by simp
  show ?thesis unfolding haversine_a_convex using a b by linarith
qed

lemma haversine_a_sym: "haversine_a p1 l1 p2 l2 = haversine_a p2 l2 p1 l1"
proof -
  have "(sin ((p2 - p1) / 2))\<^sup>2 = (sin ((p1 - p2) / 2))\<^sup>2"
    by (simp add: sin_half_sq cos_diff)
  moreover have "(sin ((l2 - l1) / 2))\<^sup>2 = (sin ((l1 - l2) / 2))\<^sup>2"
    by (simp add: sin_half_sq cos_diff)
  ultimately show ?thesis by (simp add: haversine_a_def)
qed

lemma haversine_a_same: "haversine_a p l p l = 0"
  by (simp add: haversine_a_def)

lemma haversine_a_half_turn: "haversine_a (radians 0) (radians 0) (radians 0) (radians 180) = 1"
  by (simp add: haversine_a_def radians_def)

lemma atan2_nonneg: "0 \<le> y \<Longrightarrow> 0 \<le> x \<Longrightarrow> 0 \<le> atan2 y x"
  by (auto simp: atan2_def)

lemma great_circle_value:
  "calculate_great_circle_distance a b c d =
     Inr (3440.065 * (2 * arcsin (sqrt (haversine_a (radians a) (radians b) (radians c) (radians d)))))"
proof -
  let ?h = "haversine_a (radians a) (radians b) (radians c) (radians d)"
  have h0: "0 \<le> ?h" by (rule haversine_a_nonneg)
  have h1: "?h \<le> 1" by (rule haversine_a_le_1)
  have s: "py_sqrt ?h = Inr (sqrt ?h)" using h0 by (simp add: py_sqrt_def)
  have "0 \<le> sqrt ?h" "sqrt ?h \<le> 1" using h0 h1 by simp_all
  then have "\<not> (sqrt ?h < - 1 \<or> 1 < sqrt ?h)" by linarith
  then have t: "py_asin (sqrt ?h) = Inr (arcsin (sqrt ?h))" by (simp only: py_asin_def if_False)
  show ?thesis by (simp add: calculate_great_circle_distance_def bind_exc_def Let_def s t)
qed

lemma great_circle_nonneg: "calculate_great_circle_distance a b c d = Inr x \<Longrightarrow> 0 \<le> x"
proof -
  let ?h = "haversine_a (radians a) (radians b) (radians c) (radians d)"
  assume "calculate_great_circle_distance a b c d = Inr x"
  then have x: "x = 3440.065 * (2 * arcsin (sqrt ?h))"
    by (simp only: great_circle_value sum.inject)
  have "sqrt ?h \<in> {0..1}" using haversine_a_nonneg haversine_a_le_1 by simp
  then have "0 \<le> arcsin (sqrt ?h)" by (rule arcsin_nonneg)
  then show ?thesis unfolding x by simp
qed

lemma great_circle_same: "calculate_great_circle_distance a b a b = Inr 0"
  by (simp add: great_circle_value haversine_a_same)

lemma haversine_a_near_antipodes:
  "haversine_a (radians 8) (radians 0) (radians (- 8)) (radians 180) = 1"
proof -
  have 1: "(radians (- 8) - radians 8) / 2 = - radians 8" by (simp add: radians_def)
  have 2: "(radians 180 - radians 0) / 2 = pi / 2" by (simp add: radians_def)
  have 3: "radians (- 8) = - radians 8" by (simp add: radians_def)
  have "haversine_a (radians 8) (radians 0) (radians (- 8)) (radians 180)
      = (sin (radians 8))\<^sup>2 + (cos (radians 8))\<^sup>2"
    unfolding haversine_a_def Let_def 1 2 unfolding 3 by (simp add: power2_eq_square)
  then show ?thesis by simp
qed

lemma distance_cases:
  "calculate_distance rnd a b c d =
     (if 0 \<le> haversine_a (radians a) (radians b) (radians c) (radians d) + rnd a b c d
         \<and> haversine_a (radians a) (radians b) (radians c) (radians d) + rnd a b c d \<le> 1
      then Inr (3440.065 * (2 * atan2
                  (sqrt (haversine_a (radians a) (radians b) (radians c) (radians d) + rnd a b c d))
                  (sqrt (1 - (haversine_a (radians a) (radians b) (radians c) (radians d) + rnd a b c d)))))
      else Inl ValueError)"
  by (simp add: calculate_distance_def py_sqrt_def bind_exc_def Let_def not_less)

lemma distance_nonneg: "calculate_distance rnd a b c d = Inr x \<Longrightarrow> 0 \<le> x"
proof -
  let ?h = "haversine_a (radians a) (radians b) (radians c) (radians d) + rnd a b c d"
  assume r: "calculate_distance rnd a b c d = Inr x"
  then have h: "0 \<le> ?h" "?h \<le> 1"
    by (simp_all add: distance_cases split: if_splits)
  with r have x: "x = 3440.065 * (2 * atan2 (sqrt ?h) (sqrt (1 - ?h)))"
    by (simp add: distance_cases)
  have "0 \<le> atan2 (sqrt ?h) (sqrt (1 - ?h))"
    using h by (intro atan2_nonneg) simp_all
  then show ?thesis unfolding x by simp
qed

lemma distance_exact:
  "calculate_distance no_rounding a b c d =
     Inr (3440.065 * (2 * atan2 (sqrt (haversine_a (radians a) (radians b) (radians c) (radians d)))
                              (sqrt (1 - haversine_a (radians a) (radians b) (radians c) (radians d)))))"
  using haversine_a_nonneg [of "radians a" "radians b" "radians c" "radians d"]
    haversine_a_le_1 [of "radians a" "radians b" "radians c" "radians d"]
  by (simp add: distance_cases no_rounding_def)

lemma distance_same: "rnd a b a b = 0 \<Longrightarrow> calculate_distance rnd a b a b = Inr 0"
  by (simp add: distance_cases haversine_a_same atan2_def)

lemma distance_exact_sym:
  "calculate_distance no_rounding a b c d = calculate_distance no_rounding c d a b"
  by (simp only: distance_exact haversine_a_sym [of "radians a"])

lemma distance_half_turn:
  "calculate_distance no_rounding 0 0 0 180 = Inr (3440.065 * pi)"
  "calculate_distance no_rounding 0 180 0 0 = Inr (3440.065 * pi)"
proof -
  show 1: "calculate_distance no_rounding 0 0 0 180 = Inr (3440.065 * pi)"
    by (simp add: distance_exact haversine_a_half_turn atan2_def)
  show "calculate_distance no_rounding 0 180 0 0 = Inr (3440.065 * pi)"
    using 1 by (simp only: distance_exact_sym [of 0 180 0 0])
qed

text \<open>
  C10. The simulator's distance function raises at a pair of valid coordinates. It
  raises \<open>ValueError\<close> exactly when the computed haversine term lies outside
  \<open>[0, 1]\<close>. From \<open>(8, 0)\<close> to \<open>(-8, 180)\<close> the exact term is 1; with the rounding
  error of the float evaluation there, \<open>1 / 2 ^ 52\<close>, the term exceeds 1 and
  \<open>sqrt (1 - a)\<close> raises \<open>ValueError\<close>. The planner's function, which takes the arc
  sine instead, returns half of the great circle at these coordinates.
\<close>

theorem distance_raises_near_antipodes:
  "(calculate_distance rnd la1 lo1 la2 lo2 = Inl ValueError)
     = (haversine_a (radians la1) (radians lo1) (radians la2) (radians lo2) + rnd la1 lo1 la2 lo2 < 0
        \<or> 1 < haversine_a (radians la1) (radians lo1) (radians la2) (radians lo2) + rnd la1 lo1 la2 lo2)
   \<and> haversine_a (radians 8) (radians 0) (radians (- 8)) (radians 180) = 1
   \<and> antipodal_rounding 8 0 (- 8) 180 = 1 / 2 ^ 52
   \<and> calculate_distance antipodal_rounding 8 0 (- 8) 180 = Inl ValueError
   \<and> calculate_great_circle_distance 8 0 (- 8) 180 = Inr (3440.065 * pi)"
proof -
  have c: "(calculate_distance rnd la1 lo1 la2 lo2 = Inl ValueError)
     = (haversine_a (radians la1) (radians lo1) (radians la2) (radians lo2) + rnd la1 lo1 la2 lo2 < 0
        \<or> 1 < haversine_a (radians la1) (radians lo1) (radians la2) (radians lo2) + rnd la1 lo1 la2 lo2)"
    unfolding distance_cases by auto
  have r: "antipodal_rounding 8 0 (- 8) 180 = 1 / 2 ^ 52"
    by (simp add: antipodal_rounding_def)
  have "calculate_distance antipodal_rounding 8 0 (- 8) 180 = Inl ValueError"
    unfolding distance_cases haversine_a_near_antipodes r by simp
  moreover have "calculate_great_circle_distance 8 0 (- 8) 180 = Inr (3440.065 * pi)"
    unfolding great_circle_value haversine_a_near_antipodes by simp
  ultimately show ?thesis using c haversine_a_near_antipodes r by blast
qed

section \<open>Properties of the voyage leg simulator\<close>

lemma sim_catalog:
  "map_of SIM_SHIP_TYPES k = Some spec \<Longrightarrow>
     0 < sim_avg_speed_knots spec \<and> 0 < fuel_capacity_tons spec \<and> 0 < sim_fuel_rate_tons_per_day spec"
  by (auto simp: SIM_SHIP_TYPES_def split: if_splits)

lemma sog_finite:
  "speed_over_ground (Finite v) (w, x, c) = Finite (if v + w + x + c < 1 then 1 else v + w + x + c)"
  by (simp add: speed_over_ground_def Let_def)

lemma sog_finite_ge_1:
  "\<exists>s. speed_over_ground (Finite v) draw = Finite s \<and> 1 \<le> s"
  by (cases draw) (simp add: sog_finite)

lemma leg_hours_finite: "0 < s \<Longrightarrow> leg_hours_of dnm (Finite s) = Inr (Finite (dnm / s))"
  by (simp add: leg_hours_of_def)

lemma timedelta_hours_InrD: "timedelta_hours hv = Inr h \<Longrightarrow> hv = Finite h"
  by (cases hv) simp_all

lemma leg_hours_nonneg:
  assumes "leg_hours_of dnm sv = Inr (Finite h)" and "0 \<le> dnm"
  shows "0 \<le> h"
proof (cases sv)
  case (Finite s)
  with assms show ?thesis
    by (auto simp: leg_hours_of_def split: if_splits)
next
  case PInf
  with assms show ?thesis by (simp add: leg_hours_of_def)
next
  case NInf
  with assms show ?thesis by (simp add: leg_hours_of_def)
next
  case NaN
  with assms show ?thesis by (simp add: leg_hours_of_def)
qed

lemma laycan_status_cases:
  "(laycan_status_of d = ''late'') = (d < 0)"
  "(laycan_status_of d = ''early'') = (48 < d)"
  "(laycan_status_of d = ''on_time'') = (0 \<le> d \<and> d \<le> 48)"
  by (auto simp: laycan_status_of_def)

lemma py_round_of_int [simp]: "py_round (of_int k) = k"
  by (simp add: py_round_def)

lemma py_round_0 [simp]: "py_round 0 = 0"
  using py_round_of_int [of 0] by simp

lemma round2_0 [simp]: "round2 0 = 0"
  by (simp add: round2_def)

lemma init_state_sel:
  "legs (init_state s) = []" "total_dist_nm (init_state s) = 0" "total_hours (init_state s) = 0"
  "total_fuel (init_state s) = Finite 0" "current_time (init_state s) = s"
  by (simp_all add: init_state_def)

lemma run_simulation_InrE:
  assumes "run_simulation rnd draws spec data = Inr r"
  obtains start st s df where
    "time_fromisoformat (get_or (startTime data) (Iso_time (Datetime True 0))) = Inr start"
    "leg_loop rnd spec (get_or (stw data) (Finite 14)) (speedAdjustments data) draws 0
       (waypoints data) (init_state start) = Inr st"
    "laycan_analysis (laycan_end data) (current_time st) = Inr (s, df)"
    "result_legs r = legs st" "eta r = current_time st"
    "total_distance_nm r = round2 (total_dist_nm st)"
    "voyage_hours r = round2 (total_hours st)"
    "total_fuel_consumption_mt r = fround2 (total_fuel st)"
    "laycan_status r = s" "diffHours r = round2 df"
proof -
  from assms obtain start where 1:
    "time_fromisoformat (get_or (startTime data) (Iso_time (Datetime True 0))) = Inr start"
    by (cases "time_fromisoformat (get_or (startTime data) (Iso_time (Datetime True 0)))")
       (simp_all add: run_simulation_def bind_exc_def)
  from assms 1 obtain st where 2:
    "leg_loop rnd spec (get_or (stw data) (Finite 14)) (speedAdjustments data) draws 0
       (waypoints data) (init_state start) = Inr st"
    by (cases "leg_loop rnd spec (get_or (stw data) (Finite 14)) (speedAdjustments data) draws 0
       (waypoints data) (init_state start)")
       (simp_all add: run_simulation_def bind_exc_def)
  from assms 1 2 obtain s df where 3:
    "laycan_analysis (laycan_end data) (current_time st) = Inr (s, df)"
    by (cases "laycan_analysis (laycan_end data) (current_time st)")
       (auto simp add: run_simulation_def bind_exc_def)
  from assms 1 2 3 have 4:
    "result_legs r = legs st" "eta r = current_time st"
    "total_distance_nm r = round2 (total_dist_nm st)"
    "voyage_hours r = round2 (total_hours st)"
    "total_fuel_consumption_mt r = fround2 (total_fuel st)"
    "laycan_status r = s" "diffHours r = round2 df"
    by (auto simp add: run_simulation_def bind_exc_def Let_def split: if_splits sum.splits)
  show thesis by (rule that [OF 1 2 3 4])
qed

lemma simulate_route_InrD:
  "simulate_route rnd draws data = Inr r \<Longrightarrow>
     \<exists>spec. map_of SIM_SHIP_TYPES (get_or (shipType data) ''container'') = Some spec
          \<and> run_simulation rnd draws spec data = Inr r"
  by (auto simp: simulate_route_def Let_def split: option.splits sum.splits)

lemma laycan_analysis_InrD:
  "laycan_analysis f now = Inr (s, df) \<Longrightarrow>
     \<exists>e. f = Some (Iso_time e) \<and> diff_hours e now = Inr df
        \<and> df = at_hours e - at_hours now \<and> s = laycan_status_of df"
  by (auto simp: laycan_analysis_def bind_exc_def diff_hours_def
      split: option.splits sum.splits if_splits elim!: time_fromisoformat.elims)

lemma init_loop_short:
  "length wps < 2 \<Longrightarrow> leg_loop rnd spec v adjs draws i wps st = Inr st"
  by (induction rnd spec v adjs draws i wps st rule: leg_loop.induct) auto

lemma simulate_leg_InrE:
  assumes "simulate_leg rnd spec v adjs draws i a b st = Inr st'"
  obtains dnm h fuel and l :: leg where
    "calculate_distance rnd (fst a) (snd a) (fst b) (snd b) = Inr dnm" "0 \<le> dnm"
    "leg_hours_of dnm (speed_over_ground (commanded_speed v adjs i) (draws i)) = Inr (Finite h)"
    "0 \<le> h"
    "leg_fuel_consumption spec (Finite h) (commanded_speed v adjs i) = Inr fuel"
    "legs st' = legs st @ [l]"
    "arrivalTime l = current_time st'"
    "leg_index l = i"
    "leg_hours l = round2 h"
    "fuel_consumption_mt l = fround2 fuel"
    "current_time st' = add_hours (current_time st) h"
    "total_hours st' = total_hours st + h"
    "total_dist_nm st' = total_dist_nm st + dnm"
    "total_fuel st' = fadd (total_fuel st) fuel"
proof -
  let ?cs = "commanded_speed v adjs i"
  let ?sog = "speed_over_ground ?cs (draws i)"
  from assms obtain dnm where d: "calculate_distance rnd (fst a) (snd a) (fst b) (snd b) = Inr dnm"
    by (cases "calculate_distance rnd (fst a) (snd a) (fst b) (snd b)")
       (simp_all add: simulate_leg_def bind_exc_def)
  have d0: "0 \<le> dnm" using d by (rule distance_nonneg)
  from assms d obtain hv where hv: "leg_hours_of dnm ?sog = Inr hv"
    by (cases "leg_hours_of dnm ?sog") (simp_all add: simulate_leg_def bind_exc_def Let_def)
  from assms d hv obtain fuel where f: "leg_fuel_consumption spec hv ?cs = Inr fuel"
    by (cases "leg_fuel_consumption spec hv ?cs")
       (simp_all add: simulate_leg_def bind_exc_def Let_def)
  from assms d hv f obtain h where t: "timedelta_hours hv = Inr h"
    by (cases "timedelta_hours hv") (simp_all add: simulate_leg_def bind_exc_def Let_def)
  have hvh: "hv = Finite h" using t by (rule timedelta_hours_InrD)
  have h0: "0 \<le> h" using hv d0 unfolding hvh by (rule leg_hours_nonneg)
  let ?l = "\<lparr>leg_index = i, from_wp = a, to_wp = b,
          leg_distance_nm = round2 dnm,
          stw_commanded = fround2 ?cs,
          stw_effective = fround2 (fadd (fadd ?cs (Finite (fst (draws i)))) (Finite (fst (snd (draws i))))),
          sog = fround2 ?sog,
          leg_hours = round2 h,
          fuel_consumption_mt = fround2 fuel,
          arrivalTime = add_hours (current_time st) h,
          penalty_wave = round2 (- fst (snd (draws i))),
          penalty_wind = round2 (- fst (draws i)),
          c_parallel = round2 (snd (snd (draws i)))\<rparr>"
  from assms d hv f t have st': "st' =
     \<lparr>legs = legs st @ [?l],
      total_dist_nm = total_dist_nm st + dnm,
      total_hours = total_hours st + h,
      total_fuel = fadd (total_fuel st) fuel,
      current_time = add_hours (current_time st) h\<rparr>"
    by (simp add: simulate_leg_def bind_exc_def Let_def)
  show thesis
    by (rule that [OF d d0 hv [unfolded hvh] h0 f [unfolded hvh], of ?l]) (simp_all add: st')
qed

lemma leg_fuel_finite:
  "leg_fuel_consumption spec (Finite h) (Finite c) =
     (if sim_avg_speed_knots spec = 0 then Inl ZeroDivisionError
      else Inr (Finite ((sim_fuel_rate_tons_per_day spec / 24) * h * (c / sim_avg_speed_knots spec) ^ 3)))"
  by (simp add: leg_fuel_consumption_def bind_exc_def Let_def)

lemma simulate_leg_total:
  assumes "calculate_distance rnd (fst a) (snd a) (fst b) (snd b) = Inr dnm"
    and "commanded_speed v adjs i = Finite c"
    and "sim_avg_speed_knots spec \<noteq> 0"
  shows "\<exists>st'. simulate_leg rnd spec v adjs draws i a b st = Inr st'"
proof -
  obtain s where s: "speed_over_ground (Finite c) (draws i) = Finite s" "1 \<le> s"
    using sog_finite_ge_1 by blast
  then have h: "leg_hours_of dnm (Finite s) = Inr (Finite (dnm / s))"
    by (intro leg_hours_finite) simp
  show ?thesis
    using assms(3)
    by (simp add: simulate_leg_def assms(1,2) bind_exc_def Let_def s h leg_fuel_finite)
qed

text \<open>
  C4. A successful simulation has a laycan end; its verdict is taken from
  \<open>diff = laycan_end - eta\<close> in hours, where \<open>eta\<close> is the clock after the last leg:
  "late" exactly when \<open>diff < 0\<close>, "early" exactly when \<open>diff > 48\<close>, "on_time"
  otherwise. So 0 gives "on_time", 50 gives "early" and -0.01 gives "late".
\<close>

theorem laycan_verdict:
  "(simulate_route rnd draws data = Inr r \<longrightarrow>
      (\<exists>e. laycan_end data = Some (Iso_time e)
           \<and> diff_hours e (eta r) = Inr (at_hours e - at_hours (eta r))
           \<and> laycan_status r = laycan_status_of (at_hours e - at_hours (eta r))
           \<and> diffHours r = round2 (at_hours e - at_hours (eta r))))
   \<and> (laycan_status_of d = ''late'') = (d < 0)
   \<and> (laycan_status_of d = ''early'') = (48 < d)
   \<and> (laycan_status_of d = ''on_time'') = (0 \<le> d \<and> d \<le> 48)
   \<and> laycan_status_of 0 = ''on_time''
   \<and> laycan_status_of 50 = ''early''
   \<and> laycan_status_of (- 0.01) = ''late''"
proof -
  have "\<exists>e. laycan_end data = Some (Iso_time e)
           \<and> diff_hours e (eta r) = Inr (at_hours e - at_hours (eta r))
           \<and> laycan_status r = laycan_status_of (at_hours e - at_hours (eta r))
           \<and> diffHours r = round2 (at_hours e - at_hours (eta r))"
    if "simulate_route rnd draws data = Inr r"
  proof -
    from that obtain spec where "run_simulation rnd draws spec data = Inr r"
      using simulate_route_InrD by blast
    then obtain st :: sim_state and s df where
      lay: "laycan_analysis (laycan_end data) (current_time st) = Inr (s, df)"
      and r: "eta r = current_time st" "laycan_status r = s" "diffHours r = round2 df"
      by (rule run_simulation_InrE) blast
    from laycan_analysis_InrD [OF lay] r show ?thesis by auto
  qed
  then show ?thesis
    by (simp add: laycan_status_cases)
qed

theorem laycan_verdict_witness:
  "\<exists>r e. simulate_route no_rounding calm_draws empty_voyage = Inr r
        \<and> laycan_end empty_voyage = Some (Iso_time e)
        \<and> laycan_status r = laycan_status_of (at_hours e - at_hours (eta r))
        \<and> laycan_status r = ''early''"
proof -
  have run: "simulate_route no_rounding calm_draws empty_voyage =
     Inr \<lparr>result_legs = [], total_distance_nm = 0, voyage_hours = 0,
          total_fuel_consumption_mt = Finite 0, eta = Datetime True 0,
          bunker_cost_usd = 0, co2_cost_usd = 0, total_voyage_cost_usd = 0,
          laycan_status = ''early'', diffHours = 50, sim_fuel_stops = []\<rparr>"
    by (simp add: simulate_route_def run_simulation_def empty_voyage_def get_or_def
        SIM_SHIP_TYPES_def bind_exc_def init_state_def laycan_analysis_def diff_hours_def
        laycan_status_of_def round2_def py_round_def)
  from laycan_verdict [of no_rounding calm_draws empty_voyage _ 0] run show ?thesis
    by (auto simp: empty_voyage_def)
qed



lemma nan_speed_unfloored:
  "speed_over_ground NaN draw = NaN \<and> leg_hours_of dnm NaN = Inr PInf
   \<and> (calculate_distance rnd (fst a) (snd a) (fst b) (snd b) = Inr dnm
        \<and> commanded_speed v adjs i = NaN \<and> sim_avg_speed_knots spec \<noteq> 0 \<longrightarrow>
      simulate_leg rnd spec v adjs draws i a b st = Inl OverflowError)"
  by (cases draw)
     (simp add: speed_over_ground_def leg_hours_of_def simulate_leg_def bind_exc_def Let_def
        leg_fuel_consumption_def)




text \<open>
  C8. Both endpoints reject an unknown reference before any computation: the simulator
  answers "Invalid ship type" for a ship type outside its catalog, the planner answers
  "Invalid port selection" for an origin or destination outside the port catalog, and
  one of the two answers for a ship type outside its catalog. The answer is the error
  alone (the left summand), so no legs, totals or partial plan come with it.
\<close>

theorem fail_fast:
  "(map_of SIM_SHIP_TYPES (get_or (shipType sdata) ''container'') = None \<longrightarrow>
      simulate_route rnd draws sdata = Inl Invalid_ship_type)
   \<and> (map_of MAJOR_PORTS (get_or (req_origin data) ''Singapore'') = None
        \<or> map_of MAJOR_PORTS (get_or (req_destination data) ''Rotterdam'') = None \<longrightarrow>
      maritime_route_plan data = Inl Invalid_port_selection)
   \<and> (map_of SHIP_TYPES (get_or (req_ship_type data) ''container'') = None \<longrightarrow>
      maritime_route_plan data = Inl Invalid_port_selection
      \<or> maritime_route_plan data = Inl Invalid_ship_type)"
  by (auto simp: simulate_route_def maritime_route_plan_def Let_def split: option.splits)

theorem fail_fast_witness:
  "simulate_route no_rounding calm_draws unknown_ship_voyage = Inl Invalid_ship_type
   \<and> maritime_route_plan unknown_port_request = Inl Invalid_port_selection
   \<and> maritime_route_plan unknown_ship_request = Inl Invalid_ship_type"
proof -
  have 1: "map_of SIM_SHIP_TYPES (get_or (shipType unknown_ship_voyage) ''container'') = None"
    by (simp add: unknown_ship_voyage_def get_or_def SIM_SHIP_TYPES_def)
  have 2: "map_of MAJOR_PORTS (get_or (req_origin unknown_port_request) ''Singapore'') = None"
    by (simp add: unknown_port_request_def get_or_def MAJOR_PORTS_def)
  have 3: "map_of SHIP_TYPES (get_or (req_ship_type unknown_ship_request) ''container'') = None"
    by (simp add: unknown_ship_request_def get_or_def SHIP_TYPES_def)
  have 4: "maritime_route_plan unknown_ship_request \<noteq> Inl Invalid_port_selection"
    by (simp add: maritime_route_plan_def unknown_ship_request_def get_or_def MAJOR_PORTS_def
        SHIP_TYPES_def)
  from fail_fast [of unknown_ship_voyage no_rounding calm_draws unknown_port_request] 1 2
  have a: "simulate_route no_rounding calm_draws unknown_ship_voyage = Inl Invalid_ship_type"
    and b: "maritime_route_plan unknown_port_request = Inl Invalid_port_selection"
    by blast+
  from fail_fast [of unknown_ship_voyage no_rounding calm_draws unknown_ship_request] 3 4
  have "maritime_route_plan unknown_ship_request = Inl Invalid_ship_type" by blast
  with a b show ?thesis by blast
qed

text \<open>
  C9. With fewer than two waypoints, in a request that is valid otherwise (a known ship
  type, a start time that parses, a laycan end that is present, parses and has the
  same UTC-offset awareness as the start time), the simulation succeeds, whatever the
  commanded speed is: no legs, zero distance, hours and fuel, zero costs, the start
  time as ETA and no fuel stop.
\<close>

theorem short_waypoint_list:
  assumes "length (waypoints data) < 2"
    and "map_of SIM_SHIP_TYPES (get_or (shipType data) ''container'') = Some spec"
    and "get_or (startTime data) (Iso_time (Datetime True 0)) = Iso_time start"
    and "laycan_end data = Some (Iso_time e)"
    and "aware e = aware start"
  shows "\<exists>r. simulate_route rnd draws data = Inr r
           \<and> result_legs r = [] \<and> total_distance_nm r = 0 \<and> voyage_hours r = 0
           \<and> total_fuel_consumption_mt r = Finite 0 \<and> eta r = start \<and> sim_fuel_stops r = []
           \<and> bunker_cost_usd r = 0 \<and> co2_cost_usd r = 0 \<and> total_voyage_cost_usd r = 0"
proof -
  have cap: "\<not> fuel_capacity_tons spec < 0"
    using sim_catalog [OF assms(2)] by simp
  have loop: "leg_loop rnd spec (get_or (stw data) (Finite 14)) (speedAdjustments data) draws 0
      (waypoints data) (init_state start) = Inr (init_state start)"
    using assms(1) by (rule init_loop_short)
  show ?thesis
    using assms(2-5) cap
    by (simp add: simulate_route_def run_simulation_def bind_exc_def loop init_state_sel
        laycan_analysis_def diff_hours_def)
qed

theorem short_waypoint_list_witness:
  "\<exists>r. simulate_route no_rounding calm_draws empty_voyage = Inr r
      \<and> result_legs r = [] \<and> total_distance_nm r = 0 \<and> voyage_hours r = 0
      \<and> total_fuel_consumption_mt r = Finite 0"
proof -
  have "\<exists>r. simulate_route no_rounding calm_draws empty_voyage = Inr r
      \<and> result_legs r = [] \<and> total_distance_nm r = 0 \<and> voyage_hours r = 0
      \<and> total_fuel_consumption_mt r = Finite 0 \<and> eta r = Datetime True 0 \<and> sim_fuel_stops r = []
      \<and> bunker_cost_usd r = 0 \<and> co2_cost_usd r = 0 \<and> total_voyage_cost_usd r = 0"
    by (rule short_waypoint_list [where spec = container_sim_spec and e = "Datetime True 50"])
       (simp_all add: empty_voyage_def get_or_def SIM_SHIP_TYPES_def container_sim_spec_def)
  then show ?thesis by blast
qed

lemma simulate_leg_finite_fuel:
  assumes "simulate_leg rnd spec v adjs draws i a b st = Inr st'"
    and "commanded_speed v adjs i = Finite c"
    and "total_fuel st = Finite f"
  shows "\<exists>f'. total_fuel st' = Finite f'"
proof -
  from assms(1) obtain h fuel where
    fu: "leg_fuel_consumption spec (Finite h) (commanded_speed v adjs i) = Inr fuel"
    and tf: "total_fuel st' = fadd (total_fuel st) fuel"
    by (rule simulate_leg_InrE) blast
  from fu obtain x where "fuel = Finite x"
    unfolding assms(2) by (auto simp: leg_fuel_finite split: if_splits)
  with tf assms(3) show ?thesis by simp
qed

lemma leg_loop_total:
  "rnd = no_rounding \<Longrightarrow> sim_avg_speed_knots spec \<noteq> 0 \<Longrightarrow>
   (\<forall>k. \<exists>c. commanded_speed v adjs k = Finite c) \<Longrightarrow> total_fuel st = Finite f \<Longrightarrow>
     \<exists>st' f'. leg_loop rnd spec v adjs draws i wps st = Inr st' \<and> total_fuel st' = Finite f'"
proof (induction rnd spec v adjs draws i wps st arbitrary: f rule: leg_loop.induct)
  case (1 rnd spec v adjs draws i wp_from wp_to rest st)
  note rn = "1.prems"(1) and sp = "1.prems"(2) and fin = "1.prems"(3) and tf = "1.prems"(4)
  obtain c where c: "commanded_speed v adjs i = Finite c" using fin by blast
  have "\<exists>dnm. calculate_distance rnd (fst wp_from) (snd wp_from) (fst wp_to) (snd wp_to) = Inr dnm"
    unfolding rn distance_exact by blast
  then obtain dnm where d:
    "calculate_distance rnd (fst wp_from) (snd wp_from) (fst wp_to) (snd wp_to) = Inr dnm" ..
  from simulate_leg_total [OF d c sp]
  obtain st1 where s: "simulate_leg rnd spec v adjs draws i wp_from wp_to st = Inr st1"
    by blast
  from simulate_leg_finite_fuel [OF s c tf] obtain f1 where "total_fuel st1 = Finite f1"
    by blast
  from "1.IH" [OF rn sp fin this] obtain st' f' where
    "leg_loop rnd spec v adjs draws (Suc i) (wp_to # rest) st1 = Inr st'"
    "total_fuel st' = Finite f'" by blast
  with s show ?case by (simp add: bind_exc_def)
qed simp_all

lemma leg_loop_chain:
  "leg_loop rnd spec v adjs draws i wps st = Inr st' \<Longrightarrow>
   \<exists>new hs. legs st' = legs st @ new \<and> length new = length wps - 1 \<and> length hs = length new
     \<and> total_hours st' = total_hours st + sum_list hs
     \<and> at_hours (current_time st') = at_hours (current_time st) + sum_list hs
     \<and> current_time st' = (if new = [] then current_time st else arrivalTime (last new))
     \<and> (\<forall>k<length new.
          (\<exists>dnm. calculate_distance rnd (fst (wps ! k)) (snd (wps ! k))
                    (fst (wps ! Suc k)) (snd (wps ! Suc k)) = Inr dnm
                \<and> leg_hours_of dnm
                    (speed_over_ground (commanded_speed v adjs (i + k)) (draws (i + k)))
                    = Inr (Finite (hs ! k)))
          \<and> 0 \<le> hs ! k
          \<and> leg_index (new ! k) = i + k
          \<and> leg_hours (new ! k) = round2 (hs ! k)
          \<and> arrivalTime (new ! k) =
              add_hours (if k = 0 then current_time st else arrivalTime (new ! (k - 1))) (hs ! k))"
proof (induction rnd spec v adjs draws i wps st arbitrary: st' rule: leg_loop.induct)
  case (1 rnd spec v adjs draws i wp_from wp_to rest st)
  from "1.prems" obtain st1 where
    s: "simulate_leg rnd spec v adjs draws i wp_from wp_to st = Inr st1"
    and r: "leg_loop rnd spec v adjs draws (Suc i) (wp_to # rest) st1 = Inr st'"
    by (auto simp: bind_exc_def split: sum.splits)
  let ?sog = "speed_over_ground (commanded_speed v adjs i) (draws i)"
  from s obtain dnm h and l :: leg where
    d: "calculate_distance rnd (fst wp_from) (snd wp_from) (fst wp_to) (snd wp_to) = Inr dnm"
    and hh: "leg_hours_of dnm ?sog = Inr (Finite h)"
    and h0: "0 \<le> h"
    and l: "legs st1 = legs st @ [l]" "arrivalTime l = current_time st1"
    and idx: "leg_index l = i"
    and lh: "leg_hours l = round2 h"
    and c: "current_time st1 = add_hours (current_time st) h"
    and th: "total_hours st1 = total_hours st + h"
    by (rule simulate_leg_InrE) blast
  from "1.IH" [OF r] obtain new hs where
    n1: "legs st' = legs st1 @ new" and n2: "length new = length (wp_to # rest) - 1"
    and n3: "length hs = length new"
    and n4: "total_hours st' = total_hours st1 + sum_list hs"
    and n4': "at_hours (current_time st') = at_hours (current_time st1) + sum_list hs"
    and n5: "current_time st' = (if new = [] then current_time st1 else arrivalTime (last new))"
    and n6: "\<And>k. k < length new \<Longrightarrow>
          (\<exists>dnm. calculate_distance rnd (fst ((wp_to # rest) ! k)) (snd ((wp_to # rest) ! k))
                    (fst ((wp_to # rest) ! Suc k)) (snd ((wp_to # rest) ! Suc k)) = Inr dnm
                \<and> leg_hours_of dnm
                    (speed_over_ground (commanded_speed v adjs (Suc i + k)) (draws (Suc i + k)))
                    = Inr (Finite (hs ! k)))
          \<and> 0 \<le> hs ! k
          \<and> leg_index (new ! k) = Suc i + k
          \<and> leg_hours (new ! k) = round2 (hs ! k)
          \<and> arrivalTime (new ! k) =
              add_hours (if k = 0 then current_time st1 else arrivalTime (new ! (k - 1))) (hs ! k)"
    by blast
  let ?new = "l # new" and ?hs = "h # hs"
  have "legs st' = legs st @ ?new" using n1 l by simp
  moreover have "length ?new = length (wp_from # wp_to # rest) - 1" using n2 by simp
  moreover have "length ?hs = length ?new" using n3 by simp
  moreover have "total_hours st' = total_hours st + sum_list ?hs" using n4 th by simp
  moreover have "at_hours (current_time st') = at_hours (current_time st) + sum_list ?hs"
    using n4' c by (simp add: add_hours_def)
  moreover have "current_time st' = (if ?new = [] then current_time st else arrivalTime (last ?new))"
    using n5 l by simp
  moreover have "\<forall>k<length ?new.
          (\<exists>dnm. calculate_distance rnd (fst ((wp_from # wp_to # rest) ! k)) (snd ((wp_from # wp_to # rest) ! k))
                    (fst ((wp_from # wp_to # rest) ! Suc k)) (snd ((wp_from # wp_to # rest) ! Suc k)) = Inr dnm
                \<and> leg_hours_of dnm
                    (speed_over_ground (commanded_speed v adjs (i + k)) (draws (i + k)))
                    = Inr (Finite (?hs ! k)))
          \<and> 0 \<le> ?hs ! k
          \<and> leg_index (?new ! k) = i + k
          \<and> leg_hours (?new ! k) = round2 (?hs ! k)
          \<and> arrivalTime (?new ! k) =
              add_hours (if k = 0 then current_time st else arrivalTime (?new ! (k - 1))) (?hs ! k)"
  proof (intro allI impI)
    fix k assume k: "k < length ?new"
    show "(\<exists>dnm. calculate_distance rnd (fst ((wp_from # wp_to # rest) ! k)) (snd ((wp_from # wp_to # rest) ! k))
                    (fst ((wp_from # wp_to # rest) ! Suc k)) (snd ((wp_from # wp_to # rest) ! Suc k)) = Inr dnm
                \<and> leg_hours_of dnm
                    (speed_over_ground (commanded_speed v adjs (i + k)) (draws (i + k)))
                    = Inr (Finite (?hs ! k)))
          \<and> 0 \<le> ?hs ! k
          \<and> leg_index (?new ! k) = i + k
          \<and> leg_hours (?new ! k) = round2 (?hs ! k)
          \<and> arrivalTime (?new ! k) =
              add_hours (if k = 0 then current_time st else arrivalTime (?new ! (k - 1))) (?hs ! k)"
    proof (cases k)
      case 0
      then show ?thesis using d hh h0 idx lh l c by simp
    next
      case (Suc j)
      with k have j: "j < length new" by simp
      from n6 [OF j] l(2) show ?thesis unfolding Suc
        by (cases j) simp_all
    qed
  qed
  ultimately show ?case by blast
qed simp_all

lemma mono_from_steps:
  fixes f :: "nat \<Rightarrow> real"
  assumes step: "\<And>k. 0 < k \<Longrightarrow> k < n \<Longrightarrow> f (k - 1) \<le> f k"
  shows "j \<le> k \<Longrightarrow> k < n \<Longrightarrow> f j \<le> f k"
proof (induction k)
  case 0
  then show ?case by simp
next
  case (Suc k)
  show ?case
  proof (cases "j = Suc k")
    case True
    then show ?thesis by simp
  next
    case False
    with Suc.prems have "j \<le> k" "k < n" by simp_all
    then have "f j \<le> f k" by (rule Suc.IH)
    also have "f k \<le> f (Suc k)" using step [of "Suc k"] Suc.prems by simp
    finally show ?thesis .
  qed
qed

lemma leg_loop_aware:
  "leg_loop rnd spec v adjs draws i wps st = Inr st' \<Longrightarrow>
     aware (current_time st') = aware (current_time st)"
proof (induction rnd spec v adjs draws i wps st arbitrary: st' rule: leg_loop.induct)
  case (1 rnd spec v adjs draws i wp_from wp_to rest st)
  from "1.prems" obtain st1 where
    s: "simulate_leg rnd spec v adjs draws i wp_from wp_to st = Inr st1"
    and r: "leg_loop rnd spec v adjs draws (Suc i) (wp_to # rest) st1 = Inr st'"
    by (auto simp: bind_exc_def split: sum.splits)
  from s have "aware (current_time st1) = aware (current_time st)"
    by (rule simulate_leg_InrE) (simp add: add_hours_def)
  with "1.IH" [OF r] show ?case by simp
qed simp_all

lemma cheapest_port_total: "\<exists>p. cheapest_port_of BUNKERING_PORTS = Inr p"
  by (simp add: cheapest_port_of_def BUNKERING_PORTS_def)

lemma run_simulation_total:
  assumes "sim_avg_speed_knots spec \<noteq> 0"
    and "\<And>k. \<exists>c. commanded_speed (get_or (stw data) (Finite 14)) (speedAdjustments data) k = Finite c"
    and "get_or (startTime data) (Iso_time (Datetime True 0)) = Iso_time start"
    and "laycan_end data = Some (Iso_time e)"
    and "aware e = aware start"
  shows "\<exists>r. run_simulation no_rounding draws spec data = Inr r"
proof -
  have "total_fuel (init_state start) = Finite 0" by (simp add: init_state_sel)
  from assms(2) have "\<forall>k. \<exists>c. commanded_speed (get_or (stw data) (Finite 14)) (speedAdjustments data) k = Finite c"
    by blast
  from leg_loop_total [OF refl assms(1) this \<open>total_fuel (init_state start) = Finite 0\<close>] obtain st f where
    loop: "leg_loop no_rounding spec (get_or (stw data) (Finite 14)) (speedAdjustments data) draws 0
      (waypoints data) (init_state start) = Inr st"
    and f: "total_fuel st = Finite f" by blast
  from leg_loop_aware [OF loop] assms(5) have aw: "aware e = aware (current_time st)"
    by (simp add: init_state_sel)
  obtain p where p: "cheapest_port_of BUNKERING_PORTS = Inr p"
    using cheapest_port_total by blast
  show ?thesis
    using assms(3,4) aw
    by (simp add: run_simulation_def bind_exc_def loop f p laycan_analysis_def diff_hours_def Let_def)
qed

lemma simulate_route_total:
  assumes "map_of SIM_SHIP_TYPES (get_or (shipType data) ''container'') = Some spec"
    and "\<And>k. \<exists>c. commanded_speed (get_or (stw data) (Finite 14)) (speedAdjustments data) k = Finite c"
    and "get_or (startTime data) (Iso_time (Datetime True 0)) = Iso_time start"
    and "laycan_end data = Some (Iso_time e)"
    and "aware e = aware start"
  shows "\<exists>r. simulate_route no_rounding draws data = Inr r"
proof -
  have "sim_avg_speed_knots spec \<noteq> 0" using sim_catalog [OF assms(1)] by simp
  from run_simulation_total [OF this assms(2-5)] obtain r where
    "run_simulation no_rounding draws spec data = Inr r" by blast
  with assms(1) show ?thesis by (simp add: simulate_route_def)
qed

text \<open>
  C6. In a successful simulation there is one leg per pair of consecutive waypoints.
  Leg \<open>k\<close> arrives at the clock plus its unrounded hours \<open>hs ! k\<close> (the distance of the
  leg over its speed over ground, never negative): the position of its arrival time is
  the position of the clock plus \<open>hs ! k\<close>, with the clock's UTC-offset flag, where the
  clock is the start time for the first leg and the arrival time of leg \<open>k - 1\<close>
  otherwise. The ETA is the last arrival time, at the start time plus the sum of all
  leg hours, and the arrival times never decrease from a leg to a later one.
\<close>

theorem clock_carried_forward:
  assumes "simulate_route rnd draws data = Inr r"
  shows "\<exists>start hs.
      time_fromisoformat (get_or (startTime data) (Iso_time (Datetime True 0))) = Inr start
    \<and> length (result_legs r) = length (waypoints data) - 1
    \<and> length hs = length (result_legs r)
    \<and> (\<forall>k<length (result_legs r).
          (\<exists>dnm. calculate_distance rnd (fst (waypoints data ! k)) (snd (waypoints data ! k))
                    (fst (waypoints data ! Suc k)) (snd (waypoints data ! Suc k)) = Inr dnm
                \<and> leg_hours_of dnm (speed_over_ground
                     (commanded_speed (get_or (stw data) (Finite 14)) (speedAdjustments data) k)
                     (draws k)) = Inr (Finite (hs ! k)))
          \<and> 0 \<le> hs ! k
          \<and> leg_hours (result_legs r ! k) = round2 (hs ! k)
          \<and> arrivalTime (result_legs r ! k) =
              add_hours (if k = 0 then start else arrivalTime (result_legs r ! (k - 1))) (hs ! k)
          \<and> at_hours (arrivalTime (result_legs r ! k)) =
              at_hours (if k = 0 then start else arrivalTime (result_legs r ! (k - 1))) + hs ! k
          \<and> aware (arrivalTime (result_legs r ! k)) =
              aware (if k = 0 then start else arrivalTime (result_legs r ! (k - 1))))
    \<and> eta r = (if result_legs r = [] then start else arrivalTime (last (result_legs r)))
    \<and> at_hours (eta r) = at_hours start + sum_list hs
    \<and> aware (eta r) = aware start
    \<and> (\<forall>j k. j \<le> k \<and> k < length (result_legs r) \<longrightarrow>
          at_hours (arrivalTime (result_legs r ! j)) \<le> at_hours (arrivalTime (result_legs r ! k)))"
proof -
  from assms obtain spec where "run_simulation rnd draws spec data = Inr r"
    using simulate_route_InrD by blast
  then obtain start and st :: sim_state where
    start: "time_fromisoformat (get_or (startTime data) (Iso_time (Datetime True 0))) = Inr start"
    and loop: "leg_loop rnd spec (get_or (stw data) (Finite 14)) (speedAdjustments data) draws 0
       (waypoints data) (init_state start) = Inr st"
    and res: "result_legs r = legs st" "eta r = current_time st"
    by (rule run_simulation_InrE) blast
  let ?v = "get_or (stw data) (Finite 14)" and ?adjs = "speedAdjustments data"
  from leg_loop_chain [OF loop] obtain new hs where
    m1: "legs st = legs (init_state start) @ new"
    and m2: "length new = length (waypoints data) - 1"
    and n3: "length hs = length new"
    and m4: "at_hours (current_time st) = at_hours (current_time (init_state start)) + sum_list hs"
    and m5: "current_time st = (if new = [] then current_time (init_state start) else arrivalTime (last new))"
    and m6: "\<forall>k<length new.
          (\<exists>dnm. calculate_distance rnd (fst (waypoints data ! k)) (snd (waypoints data ! k))
                    (fst (waypoints data ! Suc k)) (snd (waypoints data ! Suc k)) = Inr dnm
                \<and> leg_hours_of dnm (speed_over_ground (commanded_speed ?v ?adjs (0 + k)) (draws (0 + k)))
                    = Inr (Finite (hs ! k)))
          \<and> 0 \<le> hs ! k
          \<and> leg_index (new ! k) = 0 + k
          \<and> leg_hours (new ! k) = round2 (hs ! k)
          \<and> arrivalTime (new ! k) =
              add_hours (if k = 0 then current_time (init_state start) else arrivalTime (new ! (k - 1))) (hs ! k)"
    by blast
  have n1: "legs st = new" using m1 by (simp add: init_state_sel)
  have n2: "length new = length (waypoints data) - 1" by (rule m2)
  have n4: "at_hours (current_time st) = at_hours start + sum_list hs"
    using m4 by (simp add: init_state_sel)
  have n5: "current_time st = (if new = [] then start else arrivalTime (last new))"
    using m5 by (simp add: init_state_sel)
  have n6: "(\<exists>dnm. calculate_distance rnd (fst (waypoints data ! k)) (snd (waypoints data ! k))
                    (fst (waypoints data ! Suc k)) (snd (waypoints data ! Suc k)) = Inr dnm
                \<and> leg_hours_of dnm (speed_over_ground (commanded_speed ?v ?adjs k) (draws k))
                    = Inr (Finite (hs ! k)))
          \<and> 0 \<le> hs ! k
          \<and> leg_hours (new ! k) = round2 (hs ! k)
          \<and> arrivalTime (new ! k) =
              add_hours (if k = 0 then start else arrivalTime (new ! (k - 1))) (hs ! k)"
    if "k < length new" for k
    using m6 that by (simp add: init_state_sel)
  have aw: "aware (current_time st) = aware start"
    using leg_loop_aware [OF loop] by (simp add: init_state_sel)
  have pos: "at_hours (arrivalTime (new ! k)) =
              at_hours (if k = 0 then start else arrivalTime (new ! (k - 1))) + hs ! k
          \<and> aware (arrivalTime (new ! k)) =
              aware (if k = 0 then start else arrivalTime (new ! (k - 1)))"
    if "k < length new" for k
    using n6 [OF that] by (simp add: add_hours_def)
  have step: "at_hours (arrivalTime (new ! (k - 1))) \<le> at_hours (arrivalTime (new ! k))"
    if "0 < k" "k < length new" for k
    using n6 [OF that(2)] that(1) by (simp add: add_hours_def)
  have mono: "at_hours (arrivalTime (new ! j)) \<le> at_hours (arrivalTime (new ! k))"
    if "j \<le> k" "k < length new" for j k
    by (rule mono_from_steps [where f = "\<lambda>k. at_hours (arrivalTime (new ! k))"
          and n = "length new", OF step that])
  from start n2 n3 n4 n5 n6 pos aw mono res n1 show ?thesis
    by (intro exI [of _ start] exI [of _ hs]) simp
qed

theorem clock_carried_forward_witness:
  "\<exists>r. simulate_route no_rounding calm_draws there_and_back_voyage = Inr r
      \<and> length (result_legs r) = 2
      \<and> arrivalTime (result_legs r ! 0) = Datetime True (3440.065 * pi / 13.5)
      \<and> arrivalTime (result_legs r ! 1) = Datetime True (3440.065 * pi / 13.5 + 3440.065 * pi / 13.5)
      \<and> eta r = arrivalTime (result_legs r ! 1)
      \<and> at_hours (arrivalTime (result_legs r ! 0)) \<le> at_hours (arrivalTime (result_legs r ! 1))"
proof -
  have wps: "waypoints there_and_back_voyage = [(0, 0), (0, 180), (0, 0)]"
    "get_or (stw there_and_back_voyage) (Finite 14) = Finite 14"
    "speedAdjustments there_and_back_voyage = None"
    by (simp_all add: there_and_back_voyage_def get_or_def)
  have cs: "commanded_speed (Finite 14) None k = Finite 14" for k
    by (simp add: commanded_speed_def)
  obtain r where run: "simulate_route no_rounding calm_draws there_and_back_voyage = Inr r"
    using simulate_route_total [of there_and_back_voyage container_sim_spec "Datetime True 0"
        "Datetime True 50" calm_draws]
    by (auto simp: wps cs there_and_back_voyage_def get_or_def SIM_SHIP_TYPES_def container_sim_spec_def)
  have d1: "calculate_distance no_rounding 0 0 0 180 = Inr (3440.065 * pi)"
    by (rule distance_half_turn)
  have d2: "calculate_distance no_rounding 0 180 0 0 = Inr (3440.065 * pi)"
    using d1 by (simp only: distance_exact_sym [of 0 180 0 0])
  have sog: "speed_over_ground (Finite 14) (calm_draws k) = Finite 13.5" for k
    by (simp add: sog_finite calm_draws_def)
  have lh: "leg_hours_of x (Finite 13.5) = Inr (Finite (x / 13.5))" for x
    by (rule leg_hours_finite) simp
  from clock_carried_forward [OF run] obtain start hs where
    s: "time_fromisoformat (get_or (startTime there_and_back_voyage) (Iso_time (Datetime True 0))) = Inr start"
    and len: "length (result_legs r) = length (waypoints there_and_back_voyage) - 1"
    and k: "\<And>k. k < length (result_legs r) \<Longrightarrow>
          (\<exists>dnm. calculate_distance no_rounding (fst (waypoints there_and_back_voyage ! k)) (snd (waypoints there_and_back_voyage ! k))
                    (fst (waypoints there_and_back_voyage ! Suc k)) (snd (waypoints there_and_back_voyage ! Suc k)) = Inr dnm
                \<and> leg_hours_of dnm (speed_over_ground
                     (commanded_speed (get_or (stw there_and_back_voyage) (Finite 14)) (speedAdjustments there_and_back_voyage) k)
                     (calm_draws k)) = Inr (Finite (hs ! k)))
          \<and> at_hours (arrivalTime (result_legs r ! k)) =
              at_hours (if k = 0 then start else arrivalTime (result_legs r ! (k - 1))) + hs ! k
          \<and> aware (arrivalTime (result_legs r ! k)) =
              aware (if k = 0 then start else arrivalTime (result_legs r ! (k - 1)))"
    and e: "eta r = (if result_legs r = [] then start else arrivalTime (last (result_legs r)))"
    and mono: "\<And>j k. j \<le> k \<and> k < length (result_legs r) \<Longrightarrow>
          at_hours (arrivalTime (result_legs r ! j)) \<le> at_hours (arrivalTime (result_legs r ! k))"
    by blast
  have st: "start = Datetime True 0"
    using s by (simp add: there_and_back_voyage_def get_or_def)
  have len2: "length (result_legs r) = 2" using len by (simp add: there_and_back_voyage_def)
  from k [of 0] len2 have raw0:
    "(\<exists>dnm. calculate_distance no_rounding 0 0 0 180 = Inr dnm
        \<and> leg_hours_of dnm (Finite 13.5) = Inr (Finite (hs ! 0)))
     \<and> at_hours (arrivalTime (result_legs r ! 0)) = at_hours start + hs ! 0
     \<and> aware (arrivalTime (result_legs r ! 0)) = aware start"
    by (simp add: wps cs sog)
  then obtain x0 where
    x0: "calculate_distance no_rounding 0 0 0 180 = Inr x0"
    and l0: "leg_hours_of x0 (Finite 13.5) = Inr (Finite (hs ! 0))"
    and t0: "at_hours (arrivalTime (result_legs r ! 0)) = at_hours start + hs ! 0"
    and w0: "aware (arrivalTime (result_legs r ! 0)) = aware start"
    by blast
  from x0 d1 have v0: "x0 = 3440.065 * pi" by (simp only: sum.inject)
  have h0: "hs ! 0 = 3440.065 * pi / 13.5"
    using l0 lh [of x0] unfolding v0 by simp
  have a0: "arrivalTime (result_legs r ! 0) = Datetime True (3440.065 * pi / 13.5)"
    using t0 w0 unfolding h0 st by (cases "arrivalTime (result_legs r ! 0)") simp
  from k [of 1] len2 have raw1:
    "(\<exists>dnm. calculate_distance no_rounding 0 180 0 0 = Inr dnm
        \<and> leg_hours_of dnm (Finite 13.5) = Inr (Finite (hs ! 1)))
     \<and> at_hours (arrivalTime (result_legs r ! 1)) = at_hours (arrivalTime (result_legs r ! 0)) + hs ! 1
     \<and> aware (arrivalTime (result_legs r ! 1)) = aware (arrivalTime (result_legs r ! 0))"
    by (simp add: wps cs sog)
  then obtain x1 where
    x1: "calculate_distance no_rounding 0 180 0 0 = Inr x1"
    and l1: "leg_hours_of x1 (Finite 13.5) = Inr (Finite (hs ! 1))"
    and t1: "at_hours (arrivalTime (result_legs r ! 1)) = at_hours (arrivalTime (result_legs r ! 0)) + hs ! 1"
    and w1: "aware (arrivalTime (result_legs r ! 1)) = aware (arrivalTime (result_legs r ! 0))"
    by blast
  from x1 d2 have v1: "x1 = 3440.065 * pi" by (simp only: sum.inject)
  have h1: "hs ! 1 = 3440.065 * pi / 13.5"
    using l1 lh [of x1] unfolding v1 by simp
  have a1: "arrivalTime (result_legs r ! 1) =
      Datetime True (3440.065 * pi / 13.5 + 3440.065 * pi / 13.5)"
    using t1 w1 unfolding h1 a0 by (cases "arrivalTime (result_legs r ! 1)") simp
  have e1: "eta r = arrivalTime (result_legs r ! 1)"
    using e len2 by (cases "result_legs r") (auto simp: last_conv_nth)
  from mono [of 0 1] len2 have "at_hours (arrivalTime (result_legs r ! 0))
      \<le> at_hours (arrivalTime (result_legs r ! 1))" by simp
  with run len2 a0 a1 e1 show ?thesis by blast
qed

section \<open>Properties of the route planning estimator\<close>

lemma piracy_scan_mono: "sc \<le> snd (piracy_scan zs oc dc (rs, sc))"
proof (induction zs arbitrary: rs sc)
  case Nil
  then show ?case by simp
next
  case (Cons z zs)
  obtain zn zd where z: "z = (zn, zd)" by (cases z)
  have "sc \<le> sc + (if risk_level zd = ''HIGH'' then 35 else 20)" by simp
  also have "\<dots> \<le> snd (piracy_scan zs oc dc
      (rs @ [\<lparr>risk_type = ''Piracy Risk'', level = risk_level zd, detail = [zn]\<rparr>],
       sc + (if risk_level zd = ''HIGH'' then 35 else 20)))"
    by (rule Cons.IH)
  finally show ?case using Cons.IH [where rs = rs and sc = sc] by (simp add: z)
qed

lemma piracy_scan_high:
  assumes "(zn, zd) \<in> set zs" "risk_level zd = ''HIGH''"
    and "is_point_in_zone (lat oc) (lng oc) (bounds zd) \<or> is_point_in_zone (lat dc) (lng dc) (bounds zd)"
  shows "sc + 35 \<le> snd (piracy_scan zs oc dc (rs, sc))"
  using assms(1)
proof (induction zs arbitrary: rs sc)
  case Nil
  then show ?case by simp
next
  case (Cons z zs)
  obtain zn' zd' where z: "z = (zn', zd')" by (cases z)
  show ?case
  proof (cases "z = (zn, zd)")
    case True
    with z have eq: "zn' = zn" "zd' = zd" by simp_all
    have "sc + 35 \<le> snd (piracy_scan zs oc dc
      (rs @ [\<lparr>risk_type = ''Piracy Risk'', level = risk_level zd, detail = [zn]\<rparr>], sc + 35))"
      by (rule piracy_scan_mono)
    then show ?thesis using assms(2,3) by (simp add: z eq)
  next
    case False
    with Cons.prems have mem: "(zn, zd) \<in> set zs" by simp
    have a: "sc + 35 \<le> snd (piracy_scan zs oc dc (rs, sc))" by (rule Cons.IH [OF mem])
    have "sc + 35 \<le> sc + (if risk_level zd' = ''HIGH'' then 35 else 20) + 35" by simp
    also have "\<dots> \<le> snd (piracy_scan zs oc dc
      (rs @ [\<lparr>risk_type = ''Piracy Risk'', level = risk_level zd', detail = [zn']\<rparr>],
       sc + (if risk_level zd' = ''HIGH'' then 35 else 20)))"
      by (rule Cons.IH [OF mem])
    finally show ?thesis using a by (simp add: z)
  qed
qed

text \<open>
  C1, as amended. When the origin or the destination lies inside the bounds of a piracy
  zone with risk level HIGH (and the departure date parses), the assessment succeeds
  with \<open>35 \<le> risk_score \<le> 100\<close> and an overall risk of MEDIUM or HIGH; the overall
  risk is HIGH exactly when the score reaches 50, that is, when further findings add at
  least 15 to the 35 of the zone.
\<close>

theorem high_piracy_zone_risk:
  assumes "(zone_name, zone) \<in> set PIRACY_ZONES" and "risk_level zone = ''HIGH''"
    and "is_point_in_zone (lat origin_coords) (lng origin_coords) (bounds zone)
         \<or> is_point_in_zone (lat dest_coords) (lng dest_coords) (bounds zone)"
  shows "\<exists>ra. assess_route_risks origin_coords dest_coords (Iso_date y m d) = Inr ra
           \<and> 35 \<le> risk_score ra \<and> risk_score ra \<le> 100
           \<and> (overall_risk ra = ''HIGH'' \<or> overall_risk ra = ''MEDIUM'')
           \<and> (overall_risk ra = ''HIGH'') = (50 \<le> risk_score ra)"
proof -
  obtain risks1 score1 where p: "piracy_scan PIRACY_ZONES origin_coords dest_coords ([], 0) = (risks1, score1)"
    by (cases "piracy_scan PIRACY_ZONES origin_coords dest_coords ([], 0)")
  from piracy_scan_high [OF assms, of 0 "[]"] p have s: "35 \<le> score1" by simp
  let ?season = "m \<in> set [6, 7, 8, 9, 10]"
  let ?variation = "40 < \<bar>lat origin_coords - lat dest_coords\<bar>"
  let ?busy = "port_name_near (lat origin_coords) \<in> set [''Singapore'', ''Shanghai'', ''Rotterdam'', ''Los Angeles'']
     \<or> port_name_near (lat dest_coords) \<in> set [''Singapore'', ''Shanghai'', ''Rotterdam'', ''Los Angeles'']"
  show ?thesis
    by (cases ?season; cases ?variation; cases ?busy)
       (use s in \<open>simp_all add: assess_route_risks_def p bind_exc_def Let_def\<close>)
qed

theorem high_piracy_zone_risk_witness:
  "\<exists>ra. assess_route_risks aden_point aden_point (Iso_date 2025 7 15) = Inr ra
           \<and> 35 \<le> risk_score ra
           \<and> (overall_risk ra = ''HIGH'' \<or> overall_risk ra = ''MEDIUM'')"
proof -
  have "\<exists>ra. assess_route_risks aden_point aden_point (Iso_date 2025 7 15) = Inr ra
           \<and> 35 \<le> risk_score ra \<and> risk_score ra \<le> 100
           \<and> (overall_risk ra = ''HIGH'' \<or> overall_risk ra = ''MEDIUM'')
           \<and> (overall_risk ra = ''HIGH'') = (50 \<le> risk_score ra)"
    by (rule high_piracy_zone_risk [where zone_name = "''Gulf of Aden''" and zone = "snd (PIRACY_ZONES ! 0)"])
       (simp_all add: PIRACY_ZONES_def aden_point_def is_point_in_zone_def)
  then show ?thesis by blast
qed

theorem high_zone_medium_risk_counterexample:
  "is_point_in_zone (lat aden_point) (lng aden_point) (bounds (snd (PIRACY_ZONES ! 0)))
   \<and> risk_level (snd (PIRACY_ZONES ! 0)) = ''HIGH''
   \<and> map_sum id overall_risk (assess_route_risks aden_point aden_point (Iso_date 2025 1 15)) = Inr ''MEDIUM''
   \<and> map_sum id risk_score (assess_route_risks aden_point aden_point (Iso_date 2025 1 15)) = Inr 35"
  by (simp add: assess_route_risks_def PIRACY_ZONES_def aden_point_def is_point_in_zone_def
      bind_exc_def Let_def port_name_near_def MAJOR_PORTS_def)

lemma canal_never_matches:
  "\<forall>a \<in> set (map fst MAJOR_PORTS). \<forall>b \<in> set (map fst MAJOR_PORTS). \<not> canal_heuristic a b"
  by code_simp

lemma ship_catalog:
  "map_of SHIP_TYPES k = Some spec \<Longrightarrow>
     avg_speed_knots spec * 24 \<noteq> 0 \<and> fuel_rate_tons_per_day spec * fuel_efficiency_factor spec \<noteq> 0"
  by (auto simp: SHIP_TYPES_def split: if_splits)

lemma weather_factor_of_value:
  "weather_factor_of wo (Iso_date y m d) =
     Inr (if wo then 0.95
          else if m \<in> set [11, 12, 1, 2, 3] then 1.15
          else if m \<in> set [6, 7, 8, 9] then 1.10 else 1.0)"
  by (simp add: weather_factor_of_def bind_exc_def)

lemma weather_factor_of_date:
  "\<exists>wf. weather_factor_of wo (Iso_date y m d) = Inr wf"
  by (rule exI) (rule weather_factor_of_value)

lemma assess_route_risks_date:
  "\<exists>ra. assess_route_risks oc dc (Iso_date y m d) = Inr ra"
  by (cases "piracy_scan PIRACY_ZONES oc dc ([], 0)")
     (simp add: assess_route_risks_def bind_exc_def Let_def split_def)

lemma plan_route_total:
  assumes "avg_speed_knots spec * 24 \<noteq> 0"
    and "fuel_rate_tons_per_day spec * fuel_efficiency_factor spec \<noteq> 0"
  shows "\<exists>r. plan_route origin destination oc dc spec dw bob cv (Iso_date y m d) wo = Inr r"
proof -
  obtain wf where wf: "weather_factor_of wo (Iso_date y m d) = Inr wf"
    using weather_factor_of_date by blast
  obtain ra where ra: "assess_route_risks oc dc (Iso_date y m d) = Inr ra"
    using assess_route_risks_date by blast
  obtain cc cn where cc: "canal_costs origin destination = (cc, cn)"
    by (cases "canal_costs origin destination")
  show ?thesis
    using assms
    by (simp add: plan_route_def great_circle_value bind_exc_def wf ra cc Let_def
        calculate_fuel_stops_def generate_route_coordinates_def)
qed

lemma plan_route_costs:
  assumes "plan_route origin destination oc dc spec dw bob cv date wo = Inr r"
  shows "\<exists>wf. weather_factor_of wo date = Inr wf \<and> weather_factor (fuel r) = wf
    \<and> costs r =
      \<lparr>fuel_cost = py_round (of_int (voyage_days (summary r))
                        * (fuel_rate_tons_per_day spec * fuel_efficiency_factor spec) * wf
                        * ((bunker_price oc + bunker_price dc) / 2)),
       port_cost = py_round (dw * port_cost_per_ton oc + 25000 + (dw * port_cost_per_ton dc + 25000)),
       canal_cost = fst (canal_costs origin destination),
       canal_name = snd (canal_costs origin destination),
       insurance_cost = py_round (cv * 0.001),
       compliance_cost = compliance_costs (calculate_eca_compliance oc dc),
       other_costs = 50000,
       total_cost = py_round
         (of_int (voyage_days (summary r))
            * (fuel_rate_tons_per_day spec * fuel_efficiency_factor spec) * wf
            * ((bunker_price oc + bunker_price dc) / 2)
          + (dw * port_cost_per_ton oc + 25000 + (dw * port_cost_per_ton dc + 25000))
          + of_int (fst (canal_costs origin destination))
          + cv * 0.001 + of_int 50000
          + of_int (compliance_costs (calculate_eca_compliance oc dc)))\<rparr>"
proof -
  obtain cc cn where cc: "canal_costs origin destination = (cc, cn)"
    by (cases "canal_costs origin destination")
  from assms obtain wf where wf: "weather_factor_of wo date = Inr wf"
    by (cases "weather_factor_of wo date")
       (simp_all add: plan_route_def great_circle_value bind_exc_def Let_def split: if_splits)
  from assms wf obtain ra where ra: "assess_route_risks oc dc date = Inr ra"
    by (cases "assess_route_risks oc dc date")
       (simp_all add: plan_route_def great_circle_value bind_exc_def Let_def cc split: if_splits)
  from assms wf ra show ?thesis
    by (auto simp add: plan_route_def great_circle_value bind_exc_def Let_def cc
        generate_route_coordinates_def split: if_splits sum.splits)
qed

lemma maritime_route_plan_InrD:
  assumes "maritime_route_plan data = Inr r"
  shows "\<exists>oc dc spec.
      map_of MAJOR_PORTS (get_or (req_origin data) ''Singapore'') = Some oc
    \<and> map_of MAJOR_PORTS (get_or (req_destination data) ''Rotterdam'') = Some dc
    \<and> map_of SHIP_TYPES (get_or (req_ship_type data) ''container'') = Some spec
    \<and> plan_route (get_or (req_origin data) ''Singapore'') (get_or (req_destination data) ''Rotterdam'')
         oc dc spec (get_or (req_deadweight data) 50000) (get_or (req_bunker_on_board data) 500)
         (get_or (req_cargo_value data) 2500000)
         (get_or (req_departure_date data) (Iso_date 2025 9 1))
         (get_or (req_weather_optimized data) False) = Inr r"
  using assms
  by (auto simp: maritime_route_plan_def Let_def split: option.splits sum.splits)

lemma maritime_route_plan_total:
  assumes "map_of MAJOR_PORTS (get_or (req_origin data) ''Singapore'') = Some oc"
    and "map_of MAJOR_PORTS (get_or (req_destination data) ''Rotterdam'') = Some dc"
    and "map_of SHIP_TYPES (get_or (req_ship_type data) ''container'') = Some spec"
    and "get_or (req_departure_date data) (Iso_date 2025 9 1) = Iso_date y m d"
  shows "\<exists>r. maritime_route_plan data = Inr r"
proof -
  from ship_catalog [OF assms(3)] have
    "avg_speed_knots spec * 24 \<noteq> 0"
    "fuel_rate_tons_per_day spec * fuel_efficiency_factor spec \<noteq> 0" by simp_all
  from plan_route_total [OF this] obtain r where
    "plan_route (get_or (req_origin data) ''Singapore'') (get_or (req_destination data) ''Rotterdam'')
         oc dc spec (get_or (req_deadweight data) 50000) (get_or (req_bunker_on_board data) 500)
         (get_or (req_cargo_value data) 2500000) (Iso_date y m d)
         (get_or (req_weather_optimized data) False) = Inr r"
    by blast
  with assms show ?thesis by (simp add: maritime_route_plan_def Let_def)
qed

lemma py_round_err: "\<bar>of_int (py_round x) - x\<bar> \<le> 1 / 2"
proof -
  have "of_int \<lfloor>x\<rfloor> \<le> x" "x < of_int \<lfloor>x\<rfloor> + 1" by linarith+
  then show ?thesis by (auto simp: py_round_def Let_def)
qed

lemma py_round_shift:
  assumes "x - of_int \<lfloor>x\<rfloor> \<noteq> 1 / 2"
  shows "py_round (of_int k + x) = k + py_round x"
proof -
  have f: "\<lfloor>of_int k + x\<rfloor> = k + \<lfloor>x\<rfloor>" by simp
  have d: "of_int k + x - of_int (k + \<lfloor>x\<rfloor>) = x - of_int \<lfloor>x\<rfloor>" by simp
  show ?thesis using assms unfolding py_round_def Let_def f d by simp
qed

text \<open>
  C5. The canal block charges the flat 222865 (and names the Suez Canal) only when its
  two substring tests on \<open>origin-destination\<close> both hold, and nothing otherwise. No
  pair of names of the port catalog passes the tests, and a plan is only computed for
  names of the catalog, so every route plan has \<open>canal_cost = 0\<close> and no canal name.
\<close>

theorem canal_cost_zero_for_catalog:
  "canal_costs a b = (if canal_heuristic a b then (222865, Some ''Suez Canal'') else (0, None))
   \<and> (\<forall>p \<in> set (map fst MAJOR_PORTS). \<forall>q \<in> set (map fst MAJOR_PORTS).
         \<not> canal_heuristic p q \<and> canal_costs p q = (0, None))
   \<and> (maritime_route_plan data = Inr r \<longrightarrow>
         canal_cost (costs r) = 0 \<and> canal_name (costs r) = None)"
proof -
  have 1: "canal_costs a b = (if canal_heuristic a b then (222865, Some ''Suez Canal'') else (0, None))"
    by (simp add: canal_costs_def)
  have 2: "\<forall>p \<in> set (map fst MAJOR_PORTS). \<forall>q \<in> set (map fst MAJOR_PORTS).
         \<not> canal_heuristic p q \<and> canal_costs p q = (0, None)"
    using canal_never_matches by (simp add: canal_costs_def)
  have 3: "canal_cost (costs r) = 0 \<and> canal_name (costs r) = None"
    if "maritime_route_plan data = Inr r"
  proof -
    let ?o = "get_or (req_origin data) ''Singapore''"
    let ?d = "get_or (req_destination data) ''Rotterdam''"
    from maritime_route_plan_InrD [OF that] obtain oc dc spec where
      o: "map_of MAJOR_PORTS ?o = Some oc" and d: "map_of MAJOR_PORTS ?d = Some dc"
      and p: "plan_route ?o ?d oc dc spec (get_or (req_deadweight data) 50000)
         (get_or (req_bunker_on_board data) 500) (get_or (req_cargo_value data) 2500000)
         (get_or (req_departure_date data) (Iso_date 2025 9 1))
         (get_or (req_weather_optimized data) False) = Inr r"
      by blast
    from o have "?o \<in> set (map fst MAJOR_PORTS)"
      by (metis map_of_SomeD fst_conv image_eqI set_map)
    moreover from d have "?d \<in> set (map fst MAJOR_PORTS)"
      by (metis map_of_SomeD fst_conv image_eqI set_map)
    ultimately have "canal_costs ?o ?d = (0, None)" using 2 by blast
    with plan_route_costs [OF p] show ?thesis by auto
  qed
  from 1 2 3 show ?thesis by blast
qed

theorem canal_cost_zero_for_catalog_witness:
  "\<not> canal_heuristic ''Singapore'' ''Rotterdam''
   \<and> (\<exists>r. maritime_route_plan default_plan_request = Inr r \<and> canal_cost (costs r) = 0)"
proof -
  have "\<exists>r. maritime_route_plan default_plan_request = Inr r"
    by (rule maritime_route_plan_total [where y = 2025 and m = 9 and d = 1])
       (simp_all add: default_plan_request_def get_or_def MAJOR_PORTS_def SHIP_TYPES_def)
  then obtain r where r: "maritime_route_plan default_plan_request = Inr r" by blast
  have m: "''Singapore'' \<in> set (map fst MAJOR_PORTS)" "''Rotterdam'' \<in> set (map fst MAJOR_PORTS)"
    by (simp_all add: MAJOR_PORTS_def)
  note law = canal_cost_zero_for_catalog [of "''Singapore''" "''Rotterdam''" default_plan_request r]
  from law m have "\<not> canal_heuristic ''Singapore'' ''Rotterdam''" by blast
  moreover from law r have "canal_cost (costs r) = 0" by blast
  ultimately show ?thesis using r by blast
qed

text \<open>
  C2, as amended. In every route plan the surfaced \<open>fuel_cost\<close>, \<open>port_cost\<close> and
  \<open>insurance_cost\<close> are the unrounded amounts \<open>F\<close>, \<open>P\<close>, \<open>I\<close> rounded one by one,
  and the surfaced \<open>total_cost\<close> is the rounded exact sum of the six unrounded
  components; so it differs from the sum of the six surfaced fields by at most 2.
\<close>

theorem total_cost_rounding:
  assumes "maritime_route_plan data = Inr r"
  shows "\<exists>oc dc spec.
      map_of MAJOR_PORTS (get_or (req_origin data) ''Singapore'') = Some oc
    \<and> map_of MAJOR_PORTS (get_or (req_destination data) ''Rotterdam'') = Some dc
    \<and> map_of SHIP_TYPES (get_or (req_ship_type data) ''container'') = Some spec
    \<and> (let F = of_int (voyage_days (summary r))
                  * (fuel_rate_tons_per_day spec * fuel_efficiency_factor spec)
                  * weather_factor (fuel r) * ((bunker_price oc + bunker_price dc) / 2);
            P = get_or (req_deadweight data) 50000 * port_cost_per_ton oc + 25000
                  + (get_or (req_deadweight data) 50000 * port_cost_per_ton dc + 25000);
            I = get_or (req_cargo_value data) 2500000 * 0.001
        in fuel_cost (costs r) = py_round F
         \<and> port_cost (costs r) = py_round P
         \<and> insurance_cost (costs r) = py_round I
         \<and> other_costs (costs r) = 50000
         \<and> total_cost (costs r) =
             py_round (F + P + of_int (canal_cost (costs r)) + I
                       + of_int (compliance_cost (costs r)) + of_int (other_costs (costs r))))
    \<and> \<bar>total_cost (costs r)
        - (fuel_cost (costs r) + port_cost (costs r) + canal_cost (costs r)
           + insurance_cost (costs r) + compliance_cost (costs r) + other_costs (costs r))\<bar> \<le> 2"
proof -
  let ?o = "get_or (req_origin data) ''Singapore''"
  let ?d = "get_or (req_destination data) ''Rotterdam''"
  let ?dw = "get_or (req_deadweight data) 50000"
  let ?cv = "get_or (req_cargo_value data) 2500000"
  from maritime_route_plan_InrD [OF assms] obtain oc dc spec where
    o: "map_of MAJOR_PORTS ?o = Some oc" and d: "map_of MAJOR_PORTS ?d = Some dc"
    and sp: "map_of SHIP_TYPES (get_or (req_ship_type data) ''container'') = Some spec"
    and p: "plan_route ?o ?d oc dc spec ?dw
         (get_or (req_bunker_on_board data) 500) ?cv
         (get_or (req_departure_date data) (Iso_date 2025 9 1))
         (get_or (req_weather_optimized data) False) = Inr r"
    by blast
  define F where "F = of_int (voyage_days (summary r))
                  * (fuel_rate_tons_per_day spec * fuel_efficiency_factor spec)
                  * weather_factor (fuel r) * ((bunker_price oc + bunker_price dc) / 2)"
  define P where "P = ?dw * port_cost_per_ton oc + 25000 + (?dw * port_cost_per_ton dc + 25000)"
  define I where "I = ?cv * 0.001"
  define c where "c = fst (canal_costs ?o ?d)"
  define k where "k = compliance_costs (calculate_eca_compliance oc dc)"
  from plan_route_costs [OF p] have
    fc: "fuel_cost (costs r) = py_round F" and pc: "port_cost (costs r) = py_round P"
    and ic: "insurance_cost (costs r) = py_round I" and oc': "other_costs (costs r) = 50000"
    and cc: "canal_cost (costs r) = c" and kc: "compliance_cost (costs r) = k"
    and tc: "total_cost (costs r) = py_round (F + P + of_int c + I + of_int 50000 + of_int k)"
    unfolding F_def P_def I_def c_def k_def by auto
  have tc': "total_cost (costs r) =
      py_round (F + P + of_int (canal_cost (costs r)) + I
                + of_int (compliance_cost (costs r)) + of_int (other_costs (costs r)))"
    unfolding tc cc kc oc' by (simp add: algebra_simps)
  let ?S = "F + P + of_int c + I + of_int 50000 + of_int k"
  have e0: "\<bar>of_int (py_round ?S) - ?S\<bar> \<le> 1 / 2" by (rule py_round_err)
  have e1: "\<bar>of_int (py_round F) - F\<bar> \<le> 1 / 2" by (rule py_round_err)
  have e2: "\<bar>of_int (py_round P) - P\<bar> \<le> 1 / 2" by (rule py_round_err)
  have e3: "\<bar>of_int (py_round I) - I\<bar> \<le> 1 / 2" by (rule py_round_err)
  have "\<bar>(of_int (py_round ?S) :: real)
        - (of_int (py_round F) + of_int (py_round P) + of_int c + of_int (py_round I)
           + of_int k + of_int 50000)\<bar> \<le> 2"
    using e0 e1 e2 e3 by linarith
  then have "\<bar>(of_int (py_round ?S - (py_round F + py_round P + c + py_round I + k + 50000)) :: real)\<bar> \<le> 2"
    by simp
  then have "\<bar>py_round ?S - (py_round F + py_round P + c + py_round I + k + 50000)\<bar> \<le> 2"
    by linarith
  then have bound: "\<bar>total_cost (costs r)
        - (fuel_cost (costs r) + port_cost (costs r) + canal_cost (costs r)
           + insurance_cost (costs r) + compliance_cost (costs r) + other_costs (costs r))\<bar> \<le> 2"
    unfolding tc fc pc ic cc kc oc' by simp
  show ?thesis
    using o d sp fc pc ic oc' tc' bound
    unfolding F_def P_def I_def Let_def by blast
qed

theorem total_cost_rounding_witness:
  "\<exists>r. maritime_route_plan default_plan_request = Inr r
      \<and> \<bar>total_cost (costs r)
          - (fuel_cost (costs r) + port_cost (costs r) + canal_cost (costs r)
             + insurance_cost (costs r) + compliance_cost (costs r) + other_costs (costs r))\<bar> \<le> 2"
proof -
  have "\<exists>r. maritime_route_plan default_plan_request = Inr r"
    by (rule maritime_route_plan_total [where y = 2025 and m = 9 and d = 1])
       (simp_all add: default_plan_request_def get_or_def MAJOR_PORTS_def SHIP_TYPES_def)
  then obtain r where r: "maritime_route_plan default_plan_request = Inr r" by blast
  from total_cost_rounding [OF r] have
    "\<bar>total_cost (costs r)
          - (fuel_cost (costs r) + port_cost (costs r) + canal_cost (costs r)
             + insurance_cost (costs r) + compliance_cost (costs r) + other_costs (costs r))\<bar> \<le> 2"
    by blast
  with r show ?thesis by blast
qed

theorem total_cost_rounding_counterexample:
  "\<exists>r. maritime_route_plan rounding_request = Inr r
      \<and> total_cost (costs r) =
          fuel_cost (costs r) + port_cost (costs r) + canal_cost (costs r)
            + insurance_cost (costs r) + compliance_cost (costs r) + other_costs (costs r) + 1"
proof -
  let ?sg = "\<lparr>lat = 1.3521, lng = 103.8198, country = ''Singapore'', bunker_price = 680,
              port_cost_per_ton = 0.8\<rparr> :: port"
  let ?hk = "\<lparr>lat = 22.3193, lng = 114.1694, country = ''Hong Kong'', bunker_price = 675,
              port_cost_per_ton = 0.8\<rparr> :: port"
  let ?ship = "\<lparr>ship_name = ''Container Ship'', fuel_rate_tons_per_day = 250, avg_speed_knots = 22,
        cost_per_ton_fuel = 8.5, typical_dwt_range = (50000, 200000),
        fuel_efficiency_factor = 1.0\<rparr> :: ship_spec"
  have "\<exists>r. maritime_route_plan rounding_request = Inr r"
    by (rule maritime_route_plan_total [where y = 2025 and m = 4 and d = 1])
       (simp_all add: rounding_request_def get_or_def MAJOR_PORTS_def SHIP_TYPES_def)
  then obtain r where r: "maritime_route_plan rounding_request = Inr r" by blast
  have sel: "get_or (req_origin rounding_request) ''Singapore'' = ''Singapore''"
    "get_or (req_destination rounding_request) ''Rotterdam'' = ''Hong Kong''"
    "get_or (req_ship_type rounding_request) ''container'' = ''container''"
    "get_or (req_deadweight rounding_request) 50000 = 4"
    "get_or (req_cargo_value rounding_request) 2500000 = 400"
    "get_or (req_departure_date rounding_request) (Iso_date 2025 9 1) = Iso_date 2025 4 1"
    "get_or (req_weather_optimized rounding_request) False = False"
    by (simp_all add: rounding_request_def get_or_def)
  have look: "map_of MAJOR_PORTS ''Singapore'' = Some ?sg" "map_of MAJOR_PORTS ''Hong Kong'' = Some ?hk"
    "map_of SHIP_TYPES ''container'' = Some ?ship"
    by (simp_all add: MAJOR_PORTS_def SHIP_TYPES_def)
  from maritime_route_plan_InrD [OF r] have
    p: "plan_route ''Singapore'' ''Hong Kong'' ?sg ?hk ?ship 4
         (get_or (req_bunker_on_board rounding_request) 500) 400 (Iso_date 2025 4 1) False = Inr r"
    unfolding sel look by auto
  have wf: "weather_factor_of False (Iso_date 2025 4 1) = Inr 1"
    by (simp add: weather_factor_of_value)
  have canal: "canal_costs ''Singapore'' ''Hong Kong'' = (0, None)"
    using canal_never_matches by (simp add: canal_costs_def MAJOR_PORTS_def)
  define n where "n = voyage_days (summary r)"
  from plan_route_costs [OF p] obtain w where
    w: "weather_factor_of False (Iso_date 2025 4 1) = Inr w"
    and cr: "costs r =
      \<lparr>fuel_cost = py_round (of_int (voyage_days (summary r))
                        * (fuel_rate_tons_per_day ?ship * fuel_efficiency_factor ?ship) * w
                        * ((bunker_price ?sg + bunker_price ?hk) / 2)),
       port_cost = py_round (4 * port_cost_per_ton ?sg + 25000 + (4 * port_cost_per_ton ?hk + 25000)),
       canal_cost = fst (canal_costs ''Singapore'' ''Hong Kong''),
       canal_name = snd (canal_costs ''Singapore'' ''Hong Kong''),
       insurance_cost = py_round (400 * 0.001),
       compliance_cost = compliance_costs (calculate_eca_compliance ?sg ?hk),
       other_costs = 50000,
       total_cost = py_round
         (of_int (voyage_days (summary r))
            * (fuel_rate_tons_per_day ?ship * fuel_efficiency_factor ?ship) * w
            * ((bunker_price ?sg + bunker_price ?hk) / 2)
          + (4 * port_cost_per_ton ?sg + 25000 + (4 * port_cost_per_ton ?hk + 25000))
          + of_int (fst (canal_costs ''Singapore'' ''Hong Kong''))
          + 400 * 0.001 + of_int 50000
          + of_int (compliance_costs (calculate_eca_compliance ?sg ?hk)))\<rparr>"
    by blast
  from w wf have w1: "w = 1" by simp
  have fc: "fuel_cost (costs r) = n * 169375"
  proof -
    have "fuel_cost (costs r) = py_round (of_int (n * 169375))"
      by (simp add: cr w1 n_def mult.commute)
    then show ?thesis by (simp only: py_round_of_int)
  qed
  have pc: "port_cost (costs r) = 50006"
    by (simp add: cr py_round_def)
  have ic: "insurance_cost (costs r) = 0"
    by (simp add: cr py_round_def)
  have cc: "canal_cost (costs r) = 0" by (simp add: cr canal)
  have kc: "compliance_cost (costs r) = 0"
    by (simp add: cr calculate_eca_compliance_def ECA_ZONES_def is_point_in_zone_def)
  have oc: "other_costs (costs r) = 50000" by (simp add: cr)
  have "total_cost (costs r) = py_round (of_int (n * 169375) + 100006.8)"
    by (simp add: cr w1 n_def canal calculate_eca_compliance_def ECA_ZONES_def
        is_point_in_zone_def mult.commute add.commute)
  also have "\<dots> = n * 169375 + py_round 100006.8"
    by (rule py_round_shift) simp
  also have "py_round 100006.8 = 100007" by (simp add: py_round_def)
  finally have tc: "total_cost (costs r) = n * 169375 + 100007" .
  have "total_cost (costs r) =
          fuel_cost (costs r) + port_cost (costs r) + canal_cost (costs r)
            + insurance_cost (costs r) + compliance_cost (costs r) + other_costs (costs r) + 1"
    unfolding tc fc pc ic cc kc oc by simp
  with r show ?thesis by blast
qed

end
